theory Spec2Isabelle
  imports Complex_Main "HOL-Library.Word"
begin

section \<open>Memory admission checks of the allocator (be/src/vec/common/allocator.cpp)\<close>

text \<open>
  The file embeds \<^verbatim>\<open>Allocator::sys_memory_check\<close>, \<^verbatim>\<open>Allocator::memory_tracker_check\<close>
  and \<^verbatim>\<open>Allocator::memory_check\<close>. Both checks are \<^verbatim>\<open>void\<close> member functions: a call
  either returns normally or throws \<^verbatim>\<open>doris::Exception(ErrorCode::MEM_ALLOC_FAILED, msg)\<close>.
  Everything else they do is an effect on their collaborators: sleeping, logging,
  \<^verbatim>\<open>cancel_query\<close>, \<^verbatim>\<open>disable_wait_gc\<close> and the addition to
  \<^verbatim>\<open>refresh_interval_memory_growth\<close>. The model passes a record of that state
  through the function and returns it with the outcome.

  In the words of the specification, a thrown exception is the decision \<open>Fail\<close>. A normal
  return stands for \<open>Proceed\<close> and for \<open>Cancelled\<close> alike: the functions are
  \<^verbatim>\<open>void\<close> and hand nothing to their caller. Where a text below says \<open>Cancelled\<close>,
  it means the normal return of a call that has called \<^verbatim>\<open>cancel_query\<close>, or that has
  left through the \<^verbatim>\<open>return\<close> of line 106 or 128 after \<^verbatim>\<open>is_query_cancelled()\<close>
  answered true; any other normal return is \<open>Proceed\<close>. The theorems themselves speak of
  the outcome, of the messages handed to \<^verbatim>\<open>cancel_query\<close>, of the wait bit, of the
  sleeps and of the log.
\<close>

subsection \<open>Data\<close>

type_synonym size_t = "64 word"

text \<open>The only error code the file raises.\<close>

datatype ErrorCode = MEM_ALLOC_FAILED

text \<open>How a call of a \<^verbatim>\<open>void\<close> function ends: \<^verbatim>\<open>return\<close> or \<^verbatim>\<open>throw doris::Exception(code, msg)\<close>.\<close>

datatype outcome = Returned | Threw ErrorCode string

text \<open>
  What is written to the log: a \<^verbatim>\<open>LOG(INFO)\<close> line, the \<^verbatim>\<open>to_string()\<close> of a
  \<^verbatim>\<open>Status::Error<code, true>(msg)\<close> sent to \<^verbatim>\<open>LOG(INFO)\<close>,
  \<^verbatim>\<open>MemTrackerLimiter::print_log_process_usage()\<close>, and the tracker's
  \<^verbatim>\<open>print_log_usage(msg)\<close>.
\<close>

datatype log_entry =
    LogInfo string
  | LogInfoStatus ErrorCode string
  | PrintLogProcessUsage
  | PrintLogUsage string

text \<open>
  \<^verbatim>\<open>doris::config\<close>: the declarations are not part of the file, the fields are the ones it
  reads. The wait ceiling is a signed integer; the loop counter \<^verbatim>\<open>wait_milliseconds\<close>
  is an \<^verbatim>\<open>int64_t\<close> that only grows from 0 in steps of 100 up to the first value that
  is not below the ceiling. It is modelled as \<open>int\<close>, which is exact for every ceiling
  more than 100 below the largest \<^verbatim>\<open>int64_t\<close>.
\<close>

record config =
  mem_alloc_fault_probability :: real
  enable_stacktrace :: bool
  stacktrace_in_alloc_large_memory_bytes :: int
  thread_wait_gc_max_milliseconds :: int
  disable_memory_gc :: bool

text \<open>
  What a check reads of \<^verbatim>\<open>doris::thread_context()\<close> and never changes:
  \<^verbatim>\<open>skip_memory_check\<close>, the thread-local \<^verbatim>\<open>enable_thread_catch_bad_alloc\<close>,
  \<^verbatim>\<open>is_attach_query()\<close>, the printed task id and thread id, and the figures of the
  thread's tracker that go into the message.
\<close>

record thread_context =
  skip_memory_check :: int
  enable_thread_catch_bad_alloc :: bool
  is_attach_query :: bool
  task_id :: string
  thread_id :: string
  tracker_label :: string
  peak_consumption :: int
  consumption :: int
  last_consumer_tracker_label :: string

text \<open>
  The answers of the collaborators during one call. The process and the query change
  under the feet of a sleeping thread, so the two polled answers are indexed by the
  number of 100 ms sleeps the call has made so far: \<open>is_exceed_hard_mem_limit env k\<close> is
  what \<^verbatim>\<open>GlobalMemoryArbitrator::is_exceed_hard_mem_limit(size)\<close> answers after \<open>k\<close>
  sleeps, \<open>is_query_cancelled env k\<close> what \<^verbatim>\<open>is_query_cancelled()\<close> answers then.
  \<open>fault\<close> is the draw \<^verbatim>\<open>fault(gen)\<close> of the Bernoulli distribution; \<open>check_limit\<close>
  is the tracker's \<^verbatim>\<open>check_limit(size)\<close>: \<open>None\<close> for an OK status, \<open>Some t\<close> for a
  failed one whose \<^verbatim>\<open>to_string()\<close> is \<open>t\<close>. The answers are inputs: nothing ties
  them to what the check itself does, so a theorem about every environment holds for
  every behaviour of the collaborators.
\<close>

record environment =
  fault :: bool
  is_exceed_hard_mem_limit :: "nat \<Rightarrow> bool"
  is_query_cancelled :: "nat \<Rightarrow> bool"
  check_limit :: "size_t \<Rightarrow> string option"
  get_stack_trace :: string
  process_limit_exceeded_errmsg_str :: string

text \<open>
  The state the checks change: the tracker manager's \<^verbatim>\<open>_wait_gc\<close> bit (read by
  \<^verbatim>\<open>wait_gc()\<close>, cleared by \<^verbatim>\<open>disable_wait_gc()\<close>), the arbitrator's atomic
  \<^verbatim>\<open>int64_t\<close> counter \<^verbatim>\<open>refresh_interval_memory_growth\<close>, the messages passed to
  \<^verbatim>\<open>cancel_query\<close> so far, the log, and the milliseconds slept.
\<close>

record state =
  wait_gc :: bool
  refresh_interval_memory_growth :: "64 word"
  cancel_query_msgs :: "string list"
  logs :: "log_entry list"
  slept_ms :: nat

subsection \<open>Effects\<close>

definition disable_wait_gc :: "state \<Rightarrow> state" where
  "disable_wait_gc s = s\<lparr>wait_gc := False\<rparr>"

definition cancel_query :: "string \<Rightarrow> state \<Rightarrow> state" where
  "cancel_query msg s = s\<lparr>cancel_query_msgs := cancel_query_msgs s @ [msg]\<rparr>"

definition log_write :: "log_entry \<Rightarrow> state \<Rightarrow> state" where
  "log_write e s = s\<lparr>logs := logs s @ [e]\<rparr>"

definition sleep_for :: "nat \<Rightarrow> state \<Rightarrow> state" where
  "sleep_for ms s = s\<lparr>slept_ms := slept_ms s + ms\<rparr>"

definition add_interval_memory_growth :: "size_t \<Rightarrow> state \<Rightarrow> state" where
  "add_interval_memory_growth n s =
     s\<lparr>refresh_interval_memory_growth := refresh_interval_memory_growth s + n\<rparr>"

subsection \<open>Messages\<close>

text \<open>Decimal digits, as \<^verbatim>\<open>fmt::format("{}", n)\<close> prints an integer.\<close>

definition digit_char :: "nat \<Rightarrow> char" where
  "digit_char d = char_of (48 + d)"

function show_nat :: "nat \<Rightarrow> string" where
  "show_nat n = (if n < 10 then [digit_char n] else show_nat (n div 10) @ [digit_char (n mod 10)])"
  by pat_completeness auto
termination
  by (relation "measure id") auto

declare show_nat.simps [simp del]

definition show_int :: "int \<Rightarrow> string" where
  "show_int i = (if i < 0 then CHR ''-'' # show_nat (nat (- i)) else show_nat (nat i))"

text \<open>Lines 63-66.\<close>

definition injection_err_msg :: "thread_context \<Rightarrow> string" where
  "injection_err_msg ctx =
     ''[MemAllocInjectFault] Query '' @ task_id ctx @
     '' alloc memory failed due to fault injection.''"

text \<open>Lines 86-99: the message of a failed hard-limit check, with the stack trace for a large request.\<close>

definition sys_err_msg :: "config \<Rightarrow> thread_context \<Rightarrow> environment \<Rightarrow> size_t \<Rightarrow> string" where
  "sys_err_msg cfg ctx env sz =
     (''Allocator sys memory check failed: Cannot alloc:'' @ show_nat (unat sz) @
      '', consuming tracker:<'' @ tracker_label ctx @
      ''>, peak used '' @ show_int (peak_consumption ctx) @
      '', current used '' @ show_int (consumption ctx) @
      '', exec node:<'' @ last_consumer_tracker_label ctx @
      ''>, '' @ process_limit_exceeded_errmsg_str env @ ''.'') @
     (if 0 < stacktrace_in_alloc_large_memory_bytes cfg \<and>
         stacktrace_in_alloc_large_memory_bytes cfg < uint sz
      then [CHR 0x0A] @ ''Alloc Stacktrace:'' @ [CHR 0x0A] @ get_stack_trace env
      else [])"

text \<open>Line 176.\<close>

definition tracker_err_msg :: "string \<Rightarrow> string" where
  "tracker_err_msg st = ''Allocator mem tracker check failed, '' @ st"

subsection \<open>sys_memory_check\<close>

text \<open>
  Lines 58-80, the fault injection. When the draw fires in a thread that does not catch,
  the query is cancelled and control falls out of the block into the hard-limit check:
  there is no \<^verbatim>\<open>return\<close> after \<^verbatim>\<open>cancel_query\<close>.
\<close>

definition fault_injection :: "config \<Rightarrow> thread_context \<Rightarrow> environment \<Rightarrow> state \<Rightarrow> outcome \<times> state" where
  "fault_injection cfg ctx env s =
     (if 0 < mem_alloc_fault_probability cfg \<and> fault env then
        let msg = injection_err_msg ctx;
            s1 = (if \<not> enable_stacktrace cfg
                  then log_write (LogInfoStatus MEM_ALLOC_FAILED msg) s else s)
        in if \<not> enable_thread_catch_bad_alloc ctx
           then (Returned, cancel_query msg s1)
           else (Threw MEM_ALLOC_FAILED msg, s1)
      else (Returned, s))"

text \<open>
  How the \<^verbatim>\<open>while\<close> loop of lines 118-131 is left: by \<^verbatim>\<open>break\<close> or by its condition,
  with the value of \<^verbatim>\<open>wait_milliseconds\<close>, or by the \<^verbatim>\<open>throw\<close> or \<^verbatim>\<open>return\<close>
  of lines 125-128, which ends the whole call.
\<close>

datatype loop_exit = Done int | Left outcome

text \<open>
  The loop. \<open>k\<close> counts the sleeps of this call, \<open>w\<close> is \<^verbatim>\<open>wait_milliseconds\<close>.
  The counter is not advanced on the \<^verbatim>\<open>break\<close> path.
\<close>

function wait_loop ::
  "config \<Rightarrow> thread_context \<Rightarrow> environment \<Rightarrow> size_t \<Rightarrow> string \<Rightarrow> nat \<Rightarrow> int \<Rightarrow> state
     \<Rightarrow> loop_exit \<times> state" where
  "wait_loop cfg ctx env sz err_msg k w s =
     (if w < thread_wait_gc_max_milliseconds cfg then
        let s1 = sleep_for 100 s in
        if \<not> is_exceed_hard_mem_limit env (Suc k) then
          (Done w, add_interval_memory_growth sz s1)
        else if is_query_cancelled env (Suc k) then
          (if enable_thread_catch_bad_alloc ctx
           then (Left (Threw MEM_ALLOC_FAILED err_msg), s1)
           else (Left Returned, s1))
        else wait_loop cfg ctx env sz err_msg (Suc k) (w + 100) s1
      else (Done w, s))"
  by pat_completeness auto
termination
  by (relation "measure (\<lambda>(cfg, ctx, env, sz, err_msg, k, w, s).
        nat (thread_wait_gc_max_milliseconds cfg - w))") auto

declare wait_loop.simps [simp del]

text \<open>Lines 112-116, 139-142, 145-148, 154 and 158: the log lines of the hard-limit check.\<close>

definition waiting_log :: "config \<Rightarrow> thread_context \<Rightarrow> string \<Rightarrow> string" where
  "waiting_log cfg ctx err_msg =
     ''Query:'' @ task_id ctx @ '' waiting for enough memory in thread id:'' @ thread_id ctx @
     '', maximum '' @ show_int (thread_wait_gc_max_milliseconds cfg) @ ''ms, '' @ err_msg @ ''.''"

definition canceled_asyn_log :: "thread_context \<Rightarrow> int \<Rightarrow> string \<Rightarrow> string" where
  "canceled_asyn_log ctx w err_msg =
     ''Query:'' @ task_id ctx @ '' canceled asyn, after waiting for memory '' @ show_int w @
     ''ms, '' @ err_msg @ ''.''"

definition throw_after_wait_log :: "thread_context \<Rightarrow> int \<Rightarrow> string \<Rightarrow> string" where
  "throw_after_wait_log ctx w err_msg =
     ''Query:'' @ task_id ctx @ '' throw exception, after waiting for memory '' @ show_int w @
     ''ms, '' @ err_msg @ ''.''"

definition sys_throw_log :: "string \<Rightarrow> string" where
  "sys_throw_log err_msg = ''sys memory check failed, throw exception, '' @ err_msg @ ''.''"

definition sys_no_throw_log :: "string \<Rightarrow> string" where
  "sys_no_throw_log err_msg = ''sys memory check failed, no throw exception, '' @ err_msg @ ''.''"

text \<open>Lines 82-160, entered when the fault injection has not thrown.\<close>

definition hard_limit_check ::
  "config \<Rightarrow> thread_context \<Rightarrow> environment \<Rightarrow> size_t \<Rightarrow> state \<Rightarrow> outcome \<times> state" where
  "hard_limit_check cfg ctx env sz s =
     (if is_exceed_hard_mem_limit env 0 then
        let err_msg = sys_err_msg cfg ctx env sz in
        if is_query_cancelled env 0 then
          (if enable_thread_catch_bad_alloc ctx
           then (Threw MEM_ALLOC_FAILED err_msg, s)
           else (Returned, s))
        else if is_attach_query ctx \<and> wait_gc s then
          let s1 = log_write (LogInfo (waiting_log cfg ctx err_msg)) s in
          (case (if \<not> disable_memory_gc cfg
                 then wait_loop cfg ctx env sz err_msg 0 0 s1
                 else (Done 0, s1)) of
             (Left r, s2) \<Rightarrow> (r, s2)
           | (Done w, s2) \<Rightarrow>
               if thread_wait_gc_max_milliseconds cfg \<le> w then
                 let s3 = log_write PrintLogProcessUsage (disable_wait_gc s2) in
                 if \<not> enable_thread_catch_bad_alloc ctx then
                   (Returned,
                    cancel_query err_msg
                      (log_write (LogInfo (canceled_asyn_log ctx w err_msg)) s3))
                 else
                   (Threw MEM_ALLOC_FAILED err_msg,
                    log_write (LogInfo (throw_after_wait_log ctx w err_msg)) s3)
               else (Returned, s2))
        else if enable_thread_catch_bad_alloc ctx then
          (Threw MEM_ALLOC_FAILED err_msg,
           log_write PrintLogProcessUsage (log_write (LogInfo (sys_throw_log err_msg)) s))
        else (Returned, log_write (LogInfo (sys_no_throw_log err_msg)) s)
      else (Returned, s))"

text \<open>
  Lines 47-161. The early return of lines 49-53 exists in test builds only
  (\<^verbatim>\<open>#ifdef BE_TEST\<close>) and is left out, here and in the tracker check.
\<close>

definition sys_memory_check ::
  "config \<Rightarrow> thread_context \<Rightarrow> environment \<Rightarrow> size_t \<Rightarrow> state \<Rightarrow> outcome \<times> state" where
  "sys_memory_check cfg ctx env sz s =
     (if skip_memory_check ctx \<noteq> 0 then (Returned, s)
      else
        (case fault_injection cfg ctx env s of
           (Threw c m, s1) \<Rightarrow> (Threw c m, s1)
         | (Returned, s1) \<Rightarrow> hard_limit_check cfg ctx env sz s1))"

subsection \<open>memory_tracker_check and memory_check\<close>

text \<open>Lines 182-183, 186-187, 191 and 194-195: the log lines of the tracker check.\<close>

definition query_canceled_asyn_log :: "thread_context \<Rightarrow> string \<Rightarrow> string" where
  "query_canceled_asyn_log ctx err_msg =
     ''query/load:'' @ task_id ctx @ '' canceled asyn, '' @ err_msg @ ''.''"

definition query_throw_log :: "thread_context \<Rightarrow> string \<Rightarrow> string" where
  "query_throw_log ctx err_msg =
     ''query/load:'' @ task_id ctx @ '' throw exception, '' @ err_msg @ ''.''"

definition tracker_throw_log :: "string \<Rightarrow> string" where
  "tracker_throw_log err_msg = ''memory tracker check failed, throw exception, '' @ err_msg @ ''.''"

definition tracker_no_throw_log :: "string \<Rightarrow> string" where
  "tracker_no_throw_log err_msg =
     ''memory tracker check failed, no throw exception, '' @ err_msg @ ''.''"

text \<open>Lines 164-198.\<close>

definition memory_tracker_check ::
  "thread_context \<Rightarrow> environment \<Rightarrow> size_t \<Rightarrow> state \<Rightarrow> outcome \<times> state" where
  "memory_tracker_check ctx env sz s =
     (if skip_memory_check ctx \<noteq> 0 then (Returned, s)
      else
        (case check_limit env sz of
           None \<Rightarrow> (Returned, s)
         | Some st \<Rightarrow>
             let err_msg = tracker_err_msg st;
                 s1 = log_write (PrintLogUsage err_msg) s
             in if is_attach_query ctx then
                  let s2 = disable_wait_gc s1 in
                  if \<not> enable_thread_catch_bad_alloc ctx then
                    (Returned,
                     cancel_query err_msg
                       (log_write (LogInfo (query_canceled_asyn_log ctx err_msg)) s2))
                  else
                    (Threw MEM_ALLOC_FAILED err_msg,
                     log_write (LogInfo (query_throw_log ctx err_msg)) s2)
                else if enable_thread_catch_bad_alloc ctx then
                  (Threw MEM_ALLOC_FAILED err_msg,
                   log_write (LogInfo (tracker_throw_log err_msg)) s1)
                else (Returned, log_write (LogInfo (tracker_no_throw_log err_msg)) s1)))"

text \<open>Lines 201-205: the tracker check runs only when the system check has returned.\<close>

definition memory_check ::
  "config \<Rightarrow> thread_context \<Rightarrow> environment \<Rightarrow> size_t \<Rightarrow> state \<Rightarrow> outcome \<times> state" where
  "memory_check cfg ctx env sz s =
     (case sys_memory_check cfg ctx env sz s of
        (Threw c m, s1) \<Rightarrow> (Threw c m, s1)
      | (Returned, s1) \<Rightarrow> memory_tracker_check ctx env sz s1)"


subsection \<open>Concrete contexts, used to run the checks\<close>

definition cfg_default :: config where
  "cfg_default = \<lparr>mem_alloc_fault_probability = 0, enable_stacktrace = False,
     stacktrace_in_alloc_large_memory_bytes = 2147483648,
     thread_wait_gc_max_milliseconds = 1000, disable_memory_gc = False\<rparr>"

definition cfg_no_gc :: config where
  "cfg_no_gc = cfg_default\<lparr>disable_memory_gc := True\<rparr>"

definition cfg_inject :: config where
  "cfg_inject = cfg_default\<lparr>mem_alloc_fault_probability := 1 / 2\<rparr>"

text \<open>A stack trace is taken for requests above 100 bytes.\<close>

definition cfg_small_trace :: config where
  "cfg_small_trace = cfg_default\<lparr>stacktrace_in_alloc_large_memory_bytes := 100\<rparr>"

definition cfg_negative_ceiling :: config where
  "cfg_negative_ceiling = cfg_default\<lparr>thread_wait_gc_max_milliseconds := - 1000\<rparr>"

definition ctx_sync :: thread_context where
  "ctx_sync = \<lparr>skip_memory_check = 0, enable_thread_catch_bad_alloc = True,
     is_attach_query = True, task_id = ''q1'', thread_id = ''7'',
     tracker_label = ''Query#Id=q1'', peak_consumption = 950, consumption = 900,
     last_consumer_tracker_label = ''scan'' \<rparr>"

definition ctx_async :: thread_context where
  "ctx_async = ctx_sync\<lparr>enable_thread_catch_bad_alloc := False\<rparr>"

definition ctx_async_unattached :: thread_context where
  "ctx_async_unattached = ctx_async\<lparr>is_attach_query := False\<rparr>"

definition ctx_sync_unattached :: thread_context where
  "ctx_sync_unattached = ctx_sync\<lparr>is_attach_query := False\<rparr>"

text \<open>The hard limit stays exceeded, nobody cancels the query, the tracker's limit holds.\<close>

definition env_exceeded :: environment where
  "env_exceeded = \<lparr>fault = False, is_exceed_hard_mem_limit = (\<lambda>k. True),
     is_query_cancelled = (\<lambda>k. False), check_limit = (\<lambda>sz. None),
     get_stack_trace = ''#0 alloc'',
     process_limit_exceeded_errmsg_str = ''process memory used 950, exceed limit 1000''\<rparr>"

text \<open>The hard limit is exceeded until the third poll finds it free.\<close>

definition env_freed :: environment where
  "env_freed = env_exceeded\<lparr>is_exceed_hard_mem_limit := (\<lambda>k. k < 3)\<rparr>"

text \<open>The query is cancelled before the call.\<close>

definition env_cancelled :: environment where
  "env_cancelled = env_exceeded\<lparr>is_query_cancelled := (\<lambda>k. True)\<rparr>"

text \<open>The query is cancelled while the call sleeps: the second poll sees it.\<close>

definition env_cancelled_later :: environment where
  "env_cancelled_later = env_exceeded\<lparr>is_query_cancelled := (\<lambda>k. 2 \<le> k)\<rparr>"

text \<open>The query is cancelled and the hard limit is not exceeded.\<close>

definition env_cancelled_not_exceeded :: environment where
  "env_cancelled_not_exceeded =
     env_cancelled\<lparr>is_exceed_hard_mem_limit := (\<lambda>k. False)\<rparr>"

definition env_not_exceeded :: environment where
  "env_not_exceeded = env_exceeded\<lparr>is_exceed_hard_mem_limit := (\<lambda>k. False)\<rparr>"

text \<open>The Bernoulli draw fires and the hard limit is not exceeded.\<close>

definition env_fault :: environment where
  "env_fault = env_not_exceeded\<lparr>fault := True\<rparr>"

text \<open>The Bernoulli draw fires and the hard limit stays exceeded.\<close>

definition env_fault_exceeded :: environment where
  "env_fault_exceeded = env_exceeded\<lparr>fault := True\<rparr>"

text \<open>The tracker's limit of 100 bytes is passed (80 consumed, 30 requested).\<close>

definition env_soft_limit :: environment where
  "env_soft_limit = env_exceeded\<lparr>check_limit :=
     (\<lambda>sz. if 100 < 80 + unat sz then Some ''[MEM_LIMIT_EXCEEDED]memory limit 100'' else None)\<rparr>"

definition state0 :: state where
  "state0 = \<lparr>wait_gc = True, refresh_interval_memory_growth = 0, cancel_query_msgs = [],
     logs = [], slept_ms = 0\<rparr>"

section \<open>Properties\<close>

subsection \<open>Decimal digits\<close>

text \<open>The ten digits, for the evaluation of messages.\<close>

lemma digit_char_values:
  "digit_char 0 = CHR ''0''" "digit_char 1 = CHR ''1''" "digit_char 2 = CHR ''2''"
  "digit_char 3 = CHR ''3''" "digit_char 4 = CHR ''4''" "digit_char 5 = CHR ''5''"
  "digit_char 6 = CHR ''6''" "digit_char 7 = CHR ''7''" "digit_char 8 = CHR ''8''"
  "digit_char 9 = CHR ''9''" "digit_char (Suc 0) = CHR ''1''"
  by code_simp+

lemmas msg_defs = sys_err_msg_def injection_err_msg_def waiting_log_def canceled_asyn_log_def
  throw_after_wait_log_def show_int_def show_nat.simps digit_char_values

subsection \<open>The wait loop\<close>

text \<open>The loop only sleeps and adds to the growth counter.\<close>

lemma wait_loop_frame:
  "wait_gc (snd (wait_loop cfg ctx env sz e k w s)) = wait_gc s \<and>
   cancel_query_msgs (snd (wait_loop cfg ctx env sz e k w s)) = cancel_query_msgs s \<and>
   logs (snd (wait_loop cfg ctx env sz e k w s)) = logs s"
proof (induction cfg ctx env sz e k w s rule: wait_loop.induct)
  case (1 cfg ctx env sz e k w s)
  show ?case
    using 1 by (subst (1 2 3) wait_loop.simps)
      (simp add: Let_def sleep_for_def add_interval_memory_growth_def)
qed

lemma wait_loop_slept:
  "\<exists>m. slept_ms (snd (wait_loop cfg ctx env sz e k w s)) = slept_ms s + 100 * m \<and>
       (m = 0 \<or> w + 100 * int m < thread_wait_gc_max_milliseconds cfg + 100)"
proof (induction cfg ctx env sz e k w s rule: wait_loop.induct)
  case (1 cfg ctx env sz e k w s)
  show ?case
  proof (cases "w < thread_wait_gc_max_milliseconds cfg")
    case False
    then show ?thesis by (subst wait_loop.simps) simp
  next
    case lt: True
    show ?thesis
    proof (cases "is_exceed_hard_mem_limit env (Suc k) \<and> \<not> is_query_cancelled env (Suc k)")
      case False
      with lt have "slept_ms (snd (wait_loop cfg ctx env sz e k w s)) = slept_ms s + 100 * 1"
        by (subst wait_loop.simps)
          (auto simp: Let_def sleep_for_def add_interval_memory_growth_def)
      with lt show ?thesis by (intro exI[of _ 1]) simp
    next
      case True
      with lt have eq: "wait_loop cfg ctx env sz e k w s =
          wait_loop cfg ctx env sz e (Suc k) (w + 100) (sleep_for 100 s)"
        by (subst wait_loop.simps) (simp add: Let_def)
      from 1 [OF lt refl] True obtain m where
        m: "slept_ms (snd (wait_loop cfg ctx env sz e (Suc k) (w + 100) (sleep_for 100 s))) =
              slept_ms (sleep_for 100 s) + 100 * m"
           "m = 0 \<or> w + 100 + 100 * int m < thread_wait_gc_max_milliseconds cfg + 100"
        by blast
      show ?thesis
        using m lt unfolding eq
        by (intro exI[of _ "Suc m"]) (auto simp: sleep_for_def)
    qed
  qed
qed

lemma wait_loop_Left:
  "wait_loop cfg ctx env sz e k w s = (Left r, s') \<Longrightarrow>
   r = (if enable_thread_catch_bad_alloc ctx then Threw MEM_ALLOC_FAILED e else Returned)"
proof (induction cfg ctx env sz e k w s rule: wait_loop.induct)
  case (1 cfg ctx env sz e k w s)
  show ?case
  proof (cases "w < thread_wait_gc_max_milliseconds cfg \<and>
      is_exceed_hard_mem_limit env (Suc k) \<and> \<not> is_query_cancelled env (Suc k)")
    case True
    with "1.prems" have
      "wait_loop cfg ctx env sz e (Suc k) (w + 100) (sleep_for 100 s) = (Left r, s')"
      by (subst (asm) wait_loop.simps) (simp add: Let_def)
    with True show ?thesis
      using "1.IH" [OF _ refl] by simp
  next
    case False
    with "1.prems" show ?thesis
      by (subst (asm) wait_loop.simps) (auto simp: Let_def split: if_splits)
  qed
qed

lemma wait_loop_free:
  assumes "\<not> is_exceed_hard_mem_limit env (Suc (k + d))"
    and "\<forall>j. k < j \<and> j \<le> k + d \<longrightarrow> is_exceed_hard_mem_limit env j \<and> \<not> is_query_cancelled env j"
    and "w + 100 * int d < thread_wait_gc_max_milliseconds cfg"
  shows "wait_loop cfg ctx env sz e k w s =
    (Done (w + 100 * int d), add_interval_memory_growth sz (sleep_for (100 * Suc d) s))"
  using assms
proof (induction d arbitrary: k w s)
  case 0
  then show ?case by (subst wait_loop.simps) (simp add: Let_def)
next
  case (Suc d)
  from Suc.prems have step: "w < thread_wait_gc_max_milliseconds cfg"
    "is_exceed_hard_mem_limit env (Suc k)" "\<not> is_query_cancelled env (Suc k)"
    by auto
  have "wait_loop cfg ctx env sz e (Suc k) (w + 100) (sleep_for 100 s) =
    (Done (w + 100 + 100 * int d),
     add_interval_memory_growth sz (sleep_for (100 * Suc d) (sleep_for 100 s)))"
    using Suc.prems by (intro Suc.IH) auto
  with step show ?case
    by (subst wait_loop.simps)
      (simp add: Let_def sleep_for_def add_interval_memory_growth_def ac_simps)
qed

lemma wait_loop_cancelled:
  assumes "is_exceed_hard_mem_limit env (Suc (k + d))" "is_query_cancelled env (Suc (k + d))"
    and "\<forall>j. k < j \<and> j \<le> k + d \<longrightarrow> is_exceed_hard_mem_limit env j \<and> \<not> is_query_cancelled env j"
    and "w + 100 * int d < thread_wait_gc_max_milliseconds cfg"
  shows "wait_loop cfg ctx env sz e k w s =
    (Left (if enable_thread_catch_bad_alloc ctx then Threw MEM_ALLOC_FAILED e else Returned),
     sleep_for (100 * Suc d) s)"
  using assms
proof (induction d arbitrary: k w s)
  case 0
  then show ?case by (subst wait_loop.simps) (simp add: Let_def)
next
  case (Suc d)
  from Suc.prems have step: "w < thread_wait_gc_max_milliseconds cfg"
    "is_exceed_hard_mem_limit env (Suc k)" "\<not> is_query_cancelled env (Suc k)"
    by auto
  have "wait_loop cfg ctx env sz e (Suc k) (w + 100) (sleep_for 100 s) =
    (Left (if enable_thread_catch_bad_alloc ctx then Threw MEM_ALLOC_FAILED e else Returned),
     sleep_for (100 * Suc d) (sleep_for 100 s))"
    using Suc.prems by (intro Suc.IH) auto
  with step show ?case
    by (subst wait_loop.simps)
      (simp add: Let_def sleep_for_def add_interval_memory_growth_def ac_simps)
qed

lemma wait_loop_ceiling:
  assumes "\<forall>j. k < j \<and> w + 100 * (int j - int k - 1) < thread_wait_gc_max_milliseconds cfg
             \<longrightarrow> is_exceed_hard_mem_limit env j \<and> \<not> is_query_cancelled env j"
  shows "wait_loop cfg ctx env sz e k w s =
    (Done (w + 100 * int (nat ((thread_wait_gc_max_milliseconds cfg - w + 99) div 100))),
     sleep_for (100 * nat ((thread_wait_gc_max_milliseconds cfg - w + 99) div 100)) s)"
  using assms
proof (induction cfg ctx env sz e k w s rule: wait_loop.induct)
  case (1 cfg ctx env sz e k w s)
  show ?case
  proof (cases "w < thread_wait_gc_max_milliseconds cfg")
    case False
    then have "nat ((thread_wait_gc_max_milliseconds cfg - w + 99) div 100) = 0"
      by simp
    with False show ?thesis
      by (subst wait_loop.simps) (simp add: sleep_for_def)
  next
    case True
    with "1.prems" have here: "is_exceed_hard_mem_limit env (Suc k)" "\<not> is_query_cancelled env (Suc k)"
      by auto
    have rest: "\<forall>j. Suc k < j \<and> w + 100 + 100 * (int j - int (Suc k) - 1) < thread_wait_gc_max_milliseconds cfg
             \<longrightarrow> is_exceed_hard_mem_limit env j \<and> \<not> is_query_cancelled env j"
      using "1.prems" by auto
    have n: "nat ((thread_wait_gc_max_milliseconds cfg - w + 99) div 100) =
        Suc (nat ((thread_wait_gc_max_milliseconds cfg - (w + 100) + 99) div 100))"
      using True by simp
    from "1.IH" [OF True refl _ _ rest] here
    have "wait_loop cfg ctx env sz e (Suc k) (w + 100) (sleep_for 100 s) =
      (Done (w + 100 + 100 * int (nat ((thread_wait_gc_max_milliseconds cfg - (w + 100) + 99) div 100))),
       sleep_for (100 * nat ((thread_wait_gc_max_milliseconds cfg - (w + 100) + 99) div 100)) (sleep_for 100 s))"
      by simp
    with True here show ?thesis
      unfolding n by (subst wait_loop.simps) (simp add: Let_def sleep_for_def ac_simps)
  qed
qed


subsection \<open>The two stages of the system check\<close>

text \<open>
  Without a positive probability and a draw that fires, the fault injection does nothing.
  It never touches the wait bit, the clock or the growth counter.
\<close>

lemma fault_injection_idle:
  "\<not> (0 < mem_alloc_fault_probability cfg \<and> fault env) \<Longrightarrow>
   fault_injection cfg ctx env s = (Returned, s)"
  by (auto simp: fault_injection_def)

lemma fault_injection_frame:
  "wait_gc (snd (fault_injection cfg ctx env s)) = wait_gc s \<and>
   slept_ms (snd (fault_injection cfg ctx env s)) = slept_ms s \<and>
   refresh_interval_memory_growth (snd (fault_injection cfg ctx env s)) =
     refresh_interval_memory_growth s"
  by (simp add: fault_injection_def Let_def cancel_query_def log_write_def)

lemma hard_limit_check_no_wait:
  "\<not> wait_gc s \<Longrightarrow> slept_ms (snd (hard_limit_check cfg ctx env sz s)) = slept_ms s"
  by (simp add: hard_limit_check_def Let_def log_write_def)

lemma sys_memory_check_no_wait:
  assumes "\<not> wait_gc s"
  shows "slept_ms (snd (sys_memory_check cfg ctx env sz s)) = slept_ms s"
proof (cases "fault_injection cfg ctx env s")
  case (Pair r s1)
  with fault_injection_frame [of cfg ctx env s] assms
  have "\<not> wait_gc s1" "slept_ms s1 = slept_ms s" by simp_all
  with Pair hard_limit_check_no_wait [of s1 cfg ctx env sz] show ?thesis
    by (cases r) (simp_all add: sys_memory_check_def)
qed

lemma hard_limit_check_async:
  assumes "\<not> enable_thread_catch_bad_alloc ctx"
  shows "fst (hard_limit_check cfg ctx env sz s) = Returned \<and>
    (\<exists>rest. cancel_query_msgs (snd (hard_limit_check cfg ctx env sz s)) =
       cancel_query_msgs s @ rest)"
proof (cases "wait_loop cfg ctx env sz (sys_err_msg cfg ctx env sz) 0 0
    (log_write (LogInfo (waiting_log cfg ctx (sys_err_msg cfg ctx env sz))) s)")
  case (Pair x s2)
  have frame: "cancel_query_msgs s2 = cancel_query_msgs s"
    using wait_loop_frame [of cfg ctx env sz "sys_err_msg cfg ctx env sz" 0 0
      "log_write (LogInfo (waiting_log cfg ctx (sys_err_msg cfg ctx env sz))) s"] Pair
    by (simp add: log_write_def)
  show ?thesis
  proof (cases x)
    case (Done w)
    with Pair frame assms show ?thesis
      by (simp add: hard_limit_check_def Let_def log_write_def cancel_query_def
          disable_wait_gc_def)
  next
    case (Left r)
    with Pair assms wait_loop_Left [of cfg ctx env sz _ 0 0 _ r s2]
    have "r = Returned" by simp
    with Left Pair frame assms show ?thesis
      by (simp add: hard_limit_check_def Let_def log_write_def cancel_query_def
          disable_wait_gc_def)
  qed
qed

lemma hard_limit_check_slept:
  "\<exists>m. slept_ms (snd (hard_limit_check cfg ctx env sz s)) = slept_ms s + 100 * m \<and>
       (m = 0 \<or> 100 * int m < thread_wait_gc_max_milliseconds cfg + 100)"
proof (cases "is_exceed_hard_mem_limit env 0 \<and> \<not> is_query_cancelled env 0 \<and>
    is_attach_query ctx \<and> wait_gc s \<and> \<not> disable_memory_gc cfg")
  case False
  then have "slept_ms (snd (hard_limit_check cfg ctx env sz s)) = slept_ms s + 100 * 0"
    by (auto simp: hard_limit_check_def Let_def log_write_def cancel_query_def
        disable_wait_gc_def)
  then show ?thesis by blast
next
  case True
  let ?e = "sys_err_msg cfg ctx env sz"
  let ?s1 = "log_write (LogInfo (waiting_log cfg ctx ?e)) s"
  obtain m where m: "slept_ms (snd (wait_loop cfg ctx env sz ?e 0 0 ?s1)) = slept_ms ?s1 + 100 * m"
    "m = 0 \<or> 0 + 100 * int m < thread_wait_gc_max_milliseconds cfg + 100"
    using wait_loop_slept [of cfg ctx env sz ?e 0 0 ?s1] by blast
  have "slept_ms (snd (hard_limit_check cfg ctx env sz s)) =
      slept_ms (snd (wait_loop cfg ctx env sz ?e 0 0 ?s1))"
    using True
    by (cases "wait_loop cfg ctx env sz ?e 0 0 ?s1"; cases "fst (wait_loop cfg ctx env sz ?e 0 0 ?s1)")
      (auto simp: hard_limit_check_def Let_def log_write_def cancel_query_def
        disable_wait_gc_def)
  with m show ?thesis
    by (intro exI[of _ m]) (simp add: log_write_def)
qed

lemmas effect_defs = log_write_def cancel_query_def disable_wait_gc_def sleep_for_def
  add_interval_memory_growth_def

lemmas run_defs = cfg_default_def cfg_no_gc_def cfg_inject_def cfg_negative_ceiling_def
  cfg_small_trace_def env_fault_exceeded_def
  ctx_sync_def ctx_async_def ctx_async_unattached_def ctx_sync_unattached_def
  env_exceeded_def env_freed_def env_cancelled_def env_cancelled_later_def
  env_cancelled_not_exceeded_def env_not_exceeded_def env_fault_def env_soft_limit_def
  state0_def

subsection \<open>Hard limit exceeded, context not waiting (lines 102-107 and 153-159)\<close>

text \<open>
  Claim C1, as the code has it. When the hard limit is exceeded and the context is not
  both attached to a query and allowed to wait, the check never sleeps. A thread that
  catches gets the exception \<open>MEM_ALLOC_FAILED\<close> with the descriptive message. A thread
  that does not catch gets a normal return: the condition is logged ("no throw
  exception") and \<^verbatim>\<open>cancel_query\<close> is not called, so nothing keeps the allocation
  from going ahead. When the query is found cancelled already, nothing is logged.
\<close>

theorem C1_hard_limit_without_wait:
  assumes "skip_memory_check ctx = 0"
    and "\<not> (0 < mem_alloc_fault_probability cfg \<and> fault env)"
    and "is_exceed_hard_mem_limit env 0"
    and "\<not> (is_attach_query ctx \<and> wait_gc s)"
  shows "sys_memory_check cfg ctx env sz s =
    (if enable_thread_catch_bad_alloc ctx
     then Threw MEM_ALLOC_FAILED (sys_err_msg cfg ctx env sz) else Returned,
     if is_query_cancelled env 0 then s
     else if enable_thread_catch_bad_alloc ctx
     then s\<lparr>logs := logs s @
            [LogInfo (sys_throw_log (sys_err_msg cfg ctx env sz)), PrintLogProcessUsage]\<rparr>
     else s\<lparr>logs := logs s @ [LogInfo (sys_no_throw_log (sys_err_msg cfg ctx env sz))]\<rparr>)"
proof -
  have "fault_injection cfg ctx env s = (Returned, s)"
    using assms(2) by (rule fault_injection_idle)
  with assms(1,3,4) show ?thesis
    by (auto simp: sys_memory_check_def hard_limit_check_def Let_def log_write_def)
qed

text \<open>The theorem of C1 at a thread that catches and is attached to no query.\<close>

theorem C1_hard_limit_without_wait_witness:
  "skip_memory_check ctx_sync_unattached = 0 \<and>
   is_exceed_hard_mem_limit env_exceeded 0 \<and>
   sys_memory_check cfg_default ctx_sync_unattached env_exceeded 200 state0 =
     (Threw MEM_ALLOC_FAILED (sys_err_msg cfg_default ctx_sync_unattached env_exceeded 200),
      state0\<lparr>logs :=
        [LogInfo (sys_throw_log (sys_err_msg cfg_default ctx_sync_unattached env_exceeded 200)),
         PrintLogProcessUsage]\<rparr>)"
proof -
  have h: "skip_memory_check ctx_sync_unattached = 0"
    "\<not> (0 < mem_alloc_fault_probability cfg_default \<and> fault env_exceeded)"
    "is_exceed_hard_mem_limit env_exceeded 0"
    "\<not> (is_attach_query ctx_sync_unattached \<and> wait_gc state0)"
    by (simp_all add: run_defs)
  from C1_hard_limit_without_wait [OF h, of 200] h(1,3) show ?thesis
    by (simp add: run_defs)
qed

text \<open>
  Against C1 as stated: in a thread that does not catch and is attached to no query, a
  request of 200 bytes over the hard limit returns normally, the query is not cancelled
  before, during or after the call, and \<^verbatim>\<open>cancel_query\<close> has not been called.
\<close>

theorem C1_counterexample:
  "is_exceed_hard_mem_limit env_exceeded 0 \<and> \<not> is_query_cancelled env_exceeded 0 \<and>
   \<not> (is_attach_query ctx_async_unattached \<and> wait_gc state0) \<and>
   \<not> enable_thread_catch_bad_alloc ctx_async_unattached \<and>
   sys_memory_check cfg_default ctx_async_unattached env_exceeded 200 state0 =
     (Returned,
      state0\<lparr>logs :=
        [LogInfo (sys_no_throw_log
           (sys_err_msg cfg_default ctx_async_unattached env_exceeded 200))]\<rparr>) \<and>
   cancel_query_msgs
     (snd (sys_memory_check cfg_default ctx_async_unattached env_exceeded 200 state0)) = []"
  by (simp add: run_defs sys_memory_check_def fault_injection_def hard_limit_check_def
      Let_def log_write_def)

text \<open>
  Claim C3, as the code has it. When the hard limit is exceeded and the query is found
  cancelled at the first look, the check ends at once and leaves the state as it was: no
  sleep, no log line, no call of \<^verbatim>\<open>cancel_query\<close>. It ends with a normal return in a
  thread that does not catch, and with the exception \<open>MEM_ALLOC_FAILED\<close> in a thread that
  catches.
\<close>

theorem C3_cancelled_short_circuit:
  assumes "skip_memory_check ctx = 0"
    and "\<not> (0 < mem_alloc_fault_probability cfg \<and> fault env)"
    and "is_exceed_hard_mem_limit env 0"
    and "is_query_cancelled env 0"
  shows "sys_memory_check cfg ctx env sz s =
    (if enable_thread_catch_bad_alloc ctx
     then Threw MEM_ALLOC_FAILED (sys_err_msg cfg ctx env sz) else Returned, s)"
proof -
  have "fault_injection cfg ctx env s = (Returned, s)"
    using assms(2) by (rule fault_injection_idle)
  with assms(1,3,4) show ?thesis
    by (simp add: sys_memory_check_def hard_limit_check_def Let_def)
qed

text \<open>The theorem of C3 at a cancelled query in a thread that does not catch.\<close>

theorem C3_cancelled_short_circuit_witness:
  "skip_memory_check ctx_async = 0 \<and>
   is_exceed_hard_mem_limit env_cancelled 0 \<and>
   is_query_cancelled env_cancelled 0 \<and>
   sys_memory_check cfg_default ctx_async env_cancelled 200 state0 = (Returned, state0)"
proof -
  have h: "skip_memory_check ctx_async = 0"
    "\<not> (0 < mem_alloc_fault_probability cfg_default \<and> fault env_cancelled)"
    "is_exceed_hard_mem_limit env_cancelled 0"
    "is_query_cancelled env_cancelled 0"
    by (simp_all add: run_defs)
  from C3_cancelled_short_circuit [OF h, of 200 state0] h(1,3,4) show ?thesis
    by (simp add: run_defs)
qed

text \<open>
  Against C3 as stated: in a thread that catches, the check on a cancelled query over the
  hard limit does not return, it throws.
\<close>

theorem C3_counterexample:
  "is_exceed_hard_mem_limit env_cancelled 0 \<and>
   is_query_cancelled env_cancelled 0 \<and>
   sys_memory_check cfg_default ctx_sync env_cancelled 200 state0 =
     (Threw MEM_ALLOC_FAILED (sys_err_msg cfg_default ctx_sync env_cancelled 200), state0) \<and>
   fst (sys_memory_check cfg_default ctx_sync env_cancelled 200 state0) \<noteq> Returned"
  by (simp add: run_defs sys_memory_check_def fault_injection_def hard_limit_check_def Let_def)

subsection \<open>Garbage collection disabled (line 117)\<close>

text \<open>
  Claim C9. With \<^verbatim>\<open>disable_memory_gc\<close> set and a positive wait ceiling, a hard-limit
  violation by an attached query that may wait and is not cancelled ends in a normal
  return. The only effect is the "waiting for enough memory" log line: no sleep, the wait
  bit stays set, \<^verbatim>\<open>cancel_query\<close> is not called and nothing is thrown.
\<close>

theorem C9_gc_disabled_proceeds:
  assumes "disable_memory_gc cfg"
    and "0 < thread_wait_gc_max_milliseconds cfg"
    and "skip_memory_check ctx = 0"
    and "\<not> (0 < mem_alloc_fault_probability cfg \<and> fault env)"
    and "is_exceed_hard_mem_limit env 0"
    and "\<not> is_query_cancelled env 0"
    and "is_attach_query ctx"
    and "wait_gc s"
  shows "sys_memory_check cfg ctx env sz s =
    (Returned,
     s\<lparr>logs := logs s @ [LogInfo (waiting_log cfg ctx (sys_err_msg cfg ctx env sz))]\<rparr>)"
proof -
  have "fault_injection cfg ctx env s = (Returned, s)"
    using assms(4) by (rule fault_injection_idle)
  with assms show ?thesis
    by (simp add: sys_memory_check_def hard_limit_check_def Let_def log_write_def)
qed

text \<open>The theorem of C9 at a request of 200 bytes with the hard limit exceeded throughout.\<close>

theorem C9_gc_disabled_proceeds_witness:
  "disable_memory_gc cfg_no_gc \<and> 0 < thread_wait_gc_max_milliseconds cfg_no_gc \<and>
   is_exceed_hard_mem_limit env_exceeded 0 \<and> is_attach_query ctx_sync \<and> wait_gc state0 \<and>
   sys_memory_check cfg_no_gc ctx_sync env_exceeded 200 state0 =
     (Returned,
      state0\<lparr>logs :=
        [LogInfo (waiting_log cfg_no_gc ctx_sync (sys_err_msg cfg_no_gc ctx_sync env_exceeded 200))]\<rparr>)"
proof -
  have h: "disable_memory_gc cfg_no_gc" "0 < thread_wait_gc_max_milliseconds cfg_no_gc"
    "skip_memory_check ctx_sync = 0"
    "\<not> (0 < mem_alloc_fault_probability cfg_no_gc \<and> fault env_exceeded)"
    "is_exceed_hard_mem_limit env_exceeded 0" "\<not> is_query_cancelled env_exceeded 0"
    "is_attach_query ctx_sync" "wait_gc state0"
    by (simp_all add: run_defs)
  from C9_gc_disabled_proceeds [OF h, of 200] h(1,2,5,7,8) show ?thesis
    by (simp add: run_defs)
qed

subsection \<open>Fault injection (lines 58-80)\<close>

text \<open>
  Claim C2, as the code has it. When the call is not skipped, the probability is positive
  and the draw fires, the message is the one of lines 63-66, and:
  \<^item> a thread that catches gets the exception with the code of every other failure of
    these checks, \<open>MEM_ALLOC_FAILED\<close>, and that message, after the status has been logged
    unless \<^verbatim>\<open>enable_stacktrace\<close> is set, and nothing else happens;
  \<^item> in a thread that does not catch, \<^verbatim>\<open>cancel_query\<close> is called with that message,
    attached to a query or not and with the wait bit left as it is, and control then
    falls into the hard-limit check of line 82: the call is that check, run from the
    state the cancellation has left. It cannot throw, and it keeps the injection message
    as the first new message to \<^verbatim>\<open>cancel_query\<close>;
  \<^item> in such a thread, when the hard limit is not exceeded or the query is then found
    cancelled, the call returns at once with the cancellation as its only effect besides
    the logged status.
\<close>

theorem C2_injected_fault:
  assumes "skip_memory_check ctx = 0"
    and "0 < mem_alloc_fault_probability cfg"
    and "fault env"
  shows "injection_err_msg ctx =
      ''[MemAllocInjectFault] Query '' @ task_id ctx @
      '' alloc memory failed due to fault injection.'' \<and>
    (enable_thread_catch_bad_alloc ctx \<longrightarrow>
       sys_memory_check cfg ctx env sz s =
         (Threw MEM_ALLOC_FAILED (injection_err_msg ctx),
          if enable_stacktrace cfg then s
          else s\<lparr>logs := logs s @ [LogInfoStatus MEM_ALLOC_FAILED (injection_err_msg ctx)]\<rparr>)) \<and>
    (\<not> enable_thread_catch_bad_alloc ctx \<longrightarrow>
       sys_memory_check cfg ctx env sz s =
         hard_limit_check cfg ctx env sz
           (if enable_stacktrace cfg
            then s\<lparr>cancel_query_msgs := cancel_query_msgs s @ [injection_err_msg ctx]\<rparr>
            else s\<lparr>logs := logs s @ [LogInfoStatus MEM_ALLOC_FAILED (injection_err_msg ctx)],
                   cancel_query_msgs := cancel_query_msgs s @ [injection_err_msg ctx]\<rparr>) \<and>
       fst (sys_memory_check cfg ctx env sz s) = Returned \<and>
       (\<exists>rest. cancel_query_msgs (snd (sys_memory_check cfg ctx env sz s)) =
          cancel_query_msgs s @ injection_err_msg ctx # rest)) \<and>
    (\<not> enable_thread_catch_bad_alloc ctx \<and>
     (\<not> is_exceed_hard_mem_limit env 0 \<or> is_query_cancelled env 0) \<longrightarrow>
       sys_memory_check cfg ctx env sz s =
         (Returned,
           (if enable_stacktrace cfg
            then s\<lparr>cancel_query_msgs := cancel_query_msgs s @ [injection_err_msg ctx]\<rparr>
            else s\<lparr>logs := logs s @ [LogInfoStatus MEM_ALLOC_FAILED (injection_err_msg ctx)],
                   cancel_query_msgs := cancel_query_msgs s @ [injection_err_msg ctx]\<rparr>)))"
proof -
  let ?s1 = "(if enable_stacktrace cfg
            then s\<lparr>cancel_query_msgs := cancel_query_msgs s @ [injection_err_msg ctx]\<rparr>
            else s\<lparr>logs := logs s @ [LogInfoStatus MEM_ALLOC_FAILED (injection_err_msg ctx)],
                   cancel_query_msgs := cancel_query_msgs s @ [injection_err_msg ctx]\<rparr>)"
  have msg: "injection_err_msg ctx =
      ''[MemAllocInjectFault] Query '' @ task_id ctx @
      '' alloc memory failed due to fault injection.''"
    by (simp add: injection_err_msg_def)
  have sync: "sys_memory_check cfg ctx env sz s =
         (Threw MEM_ALLOC_FAILED (injection_err_msg ctx),
          if enable_stacktrace cfg then s
          else s\<lparr>logs := logs s @ [LogInfoStatus MEM_ALLOC_FAILED (injection_err_msg ctx)]\<rparr>)"
    if "enable_thread_catch_bad_alloc ctx"
    using assms that
    by (simp add: sys_memory_check_def fault_injection_def Let_def log_write_def)
  have async: "sys_memory_check cfg ctx env sz s = hard_limit_check cfg ctx env sz ?s1"
    if "\<not> enable_thread_catch_bad_alloc ctx"
    using assms that
    by (simp add: sys_memory_check_def fault_injection_def Let_def effect_defs)
  have c1: "cancel_query_msgs ?s1 = cancel_query_msgs s @ [injection_err_msg ctx]"
    by simp
  have ret: "fst (sys_memory_check cfg ctx env sz s) = Returned \<and>
       (\<exists>rest. cancel_query_msgs (snd (sys_memory_check cfg ctx env sz s)) =
          cancel_query_msgs s @ injection_err_msg ctx # rest)"
    if nc: "\<not> enable_thread_catch_bad_alloc ctx"
  proof -
    from hard_limit_check_async [OF nc, of cfg env sz ?s1] obtain rest where
      "fst (hard_limit_check cfg ctx env sz ?s1) = Returned"
      "cancel_query_msgs (snd (hard_limit_check cfg ctx env sz ?s1)) =
         cancel_query_msgs ?s1 @ rest"
      by blast
    then show ?thesis
      unfolding async [OF nc] c1 by simp
  qed
  have quick: "sys_memory_check cfg ctx env sz s = (Returned, ?s1)"
    if "\<not> enable_thread_catch_bad_alloc ctx \<and>
     (\<not> is_exceed_hard_mem_limit env 0 \<or> is_query_cancelled env 0)"
  proof -
    from that have "hard_limit_check cfg ctx env sz ?s1 = (Returned, ?s1)"
      by (auto simp: hard_limit_check_def Let_def)
    with that async show ?thesis by simp
  qed
  from msg sync async ret quick show ?thesis
    by blast
qed

text \<open>
  The theorem of C2 at a probability of one half with the hard limit not exceeded, in a
  thread that catches and in one that does not, with the message written out.
\<close>

theorem C2_injected_fault_witness:
  "skip_memory_check ctx_sync = 0 \<and> 0 < mem_alloc_fault_probability cfg_inject \<and>
   fault env_fault \<and> \<not> is_exceed_hard_mem_limit env_fault 0 \<and>
   sys_memory_check cfg_inject ctx_sync env_fault 200 state0 =
     (Threw MEM_ALLOC_FAILED ''[MemAllocInjectFault] Query q1 alloc memory failed due to fault injection.'',
      state0\<lparr>logs := [LogInfoStatus MEM_ALLOC_FAILED ''[MemAllocInjectFault] Query q1 alloc memory failed due to fault injection.'']\<rparr>) \<and>
   sys_memory_check cfg_inject ctx_async env_fault 200 state0 =
     (Returned,
      state0\<lparr>logs := [LogInfoStatus MEM_ALLOC_FAILED ''[MemAllocInjectFault] Query q1 alloc memory failed due to fault injection.''],
        cancel_query_msgs := [''[MemAllocInjectFault] Query q1 alloc memory failed due to fault injection.'']\<rparr>)"
proof -
  have h: "skip_memory_check ctx_sync = 0" "0 < mem_alloc_fault_probability cfg_inject"
    "fault env_fault" and h': "skip_memory_check ctx_async = 0"
    and m: "injection_err_msg ctx_sync = ''[MemAllocInjectFault] Query q1 alloc memory failed due to fault injection.''" "injection_err_msg ctx_async = ''[MemAllocInjectFault] Query q1 alloc memory failed due to fault injection.''"
    and p: "enable_thread_catch_bad_alloc ctx_sync" "\<not> enable_thread_catch_bad_alloc ctx_async"
      "\<not> is_exceed_hard_mem_limit env_fault 0" "\<not> enable_stacktrace cfg_inject"
      "logs state0 = []" "cancel_query_msgs state0 = []"
    by (simp_all add: run_defs injection_err_msg_def)
  from C2_injected_fault [OF h, of 200 state0] p(1)
  have r1: "sys_memory_check cfg_inject ctx_sync env_fault 200 state0 =
     (Threw MEM_ALLOC_FAILED ''[MemAllocInjectFault] Query q1 alloc memory failed due to fault injection.'',
      state0\<lparr>logs := [LogInfoStatus MEM_ALLOC_FAILED ''[MemAllocInjectFault] Query q1 alloc memory failed due to fault injection.'']\<rparr>)"
    by (simp add: m p)
  from C2_injected_fault [OF h' h(2,3), of 200 state0] p(2,3)
  have "sys_memory_check cfg_inject ctx_async env_fault 200 state0 =
     (Returned,
      if enable_stacktrace cfg_inject
      then state0\<lparr>cancel_query_msgs :=
        cancel_query_msgs state0 @ [injection_err_msg ctx_async]\<rparr>
      else state0\<lparr>logs := logs state0 @
          [LogInfoStatus MEM_ALLOC_FAILED (injection_err_msg ctx_async)],
        cancel_query_msgs := cancel_query_msgs state0 @ [injection_err_msg ctx_async]\<rparr>)"
    by blast
  then have r2: "sys_memory_check cfg_inject ctx_async env_fault 200 state0 =
     (Returned,
      state0\<lparr>logs := [LogInfoStatus MEM_ALLOC_FAILED ''[MemAllocInjectFault] Query q1 alloc memory failed due to fault injection.''],
        cancel_query_msgs := [''[MemAllocInjectFault] Query q1 alloc memory failed due to fault injection.'']\<rparr>)"
    by (simp add: m p)
  from r1 r2 h p(3) show ?thesis
    by simp
qed

text \<open>
  Against C2 as stated, with the hard limit exceeded throughout and requests of 200
  bytes. In a thread that does not catch and is attached to no query, the genuine failure
  only logs and calls \<^verbatim>\<open>cancel_query\<close> not at all, the injected one calls it: the two
  do not propagate alike. In an attached thread that does not catch, the injected failure
  does not return on the cancellation: the call goes on into the wait loop, sleeps the
  full 1000 ms and calls \<^verbatim>\<open>cancel_query\<close> a second time. And a genuine failure at the
  ceiling clears the wait bit, while an injected one (here with the hard limit free)
  leaves it set.
\<close>

theorem C2_counterexample:
  "0 < mem_alloc_fault_probability cfg_inject \<and> fault env_fault_exceeded \<and>
   \<not> enable_thread_catch_bad_alloc ctx_async_unattached \<and>
   is_exceed_hard_mem_limit env_exceeded 0 \<and> is_exceed_hard_mem_limit env_fault_exceeded 0 \<and>
   fst (sys_memory_check cfg_default ctx_async_unattached env_exceeded 200 state0) = Returned \<and>
   cancel_query_msgs
     (snd (sys_memory_check cfg_default ctx_async_unattached env_exceeded 200 state0)) = [] \<and>
   fst (sys_memory_check cfg_inject ctx_async_unattached env_fault_exceeded 200 state0) =
     Returned \<and>
   cancel_query_msgs
     (snd (sys_memory_check cfg_inject ctx_async_unattached env_fault_exceeded 200 state0)) =
     [''[MemAllocInjectFault] Query q1 alloc memory failed due to fault injection.''] \<and>
   slept_ms (snd (sys_memory_check cfg_inject ctx_async env_fault_exceeded 200 state0)) = 1000 \<and>
   cancel_query_msgs (snd (sys_memory_check cfg_inject ctx_async env_fault_exceeded 200 state0)) =
     [''[MemAllocInjectFault] Query q1 alloc memory failed due to fault injection.'',
      ''Allocator sys memory check failed: Cannot alloc:200, consuming tracker:<Query#Id=q1>, peak used 950, current used 900, exec node:<scan>, process memory used 950, exceed limit 1000.''] \<and>
   \<not> wait_gc (snd (sys_memory_check cfg_default ctx_async env_exceeded 200 state0)) \<and>
   wait_gc (snd (sys_memory_check cfg_inject ctx_async env_fault 200 state0))"
  by (simp add: run_defs msg_defs sys_memory_check_def fault_injection_def hard_limit_check_def
      wait_loop.simps Let_def effect_defs)

subsection \<open>The tracker check (lines 164-198)\<close>

text \<open>
  Claim C8. When the call is not skipped and the tracker's \<^verbatim>\<open>check_limit\<close> fails, the
  check never sleeps. A thread that catches gets the exception \<open>MEM_ALLOC_FAILED\<close> with
  the tracker's message, attached or not, and \<^verbatim>\<open>cancel_query\<close> is not called. In a
  thread that does not catch and is attached to a query, the query is cancelled with that
  message and the call returns normally. The answers of the hard-limit test play no part:
  replacing them by any other answers \<open>h\<close> leaves the result as it is.
\<close>

theorem C8_soft_limit_escalates:
  assumes "skip_memory_check ctx = 0"
    and "check_limit env sz = Some st"
  shows "slept_ms (snd (memory_tracker_check ctx env sz s)) = slept_ms s \<and>
    (enable_thread_catch_bad_alloc ctx \<longrightarrow>
       fst (memory_tracker_check ctx env sz s) = Threw MEM_ALLOC_FAILED (tracker_err_msg st) \<and>
       cancel_query_msgs (snd (memory_tracker_check ctx env sz s)) = cancel_query_msgs s) \<and>
    (\<not> enable_thread_catch_bad_alloc ctx \<and> is_attach_query ctx \<longrightarrow>
       fst (memory_tracker_check ctx env sz s) = Returned \<and>
       cancel_query_msgs (snd (memory_tracker_check ctx env sz s)) =
         cancel_query_msgs s @ [tracker_err_msg st]) \<and>
    memory_tracker_check ctx (env\<lparr>is_exceed_hard_mem_limit := h\<rparr>) sz s =
      memory_tracker_check ctx env sz s"
  using assms
  by (simp add: memory_tracker_check_def Let_def effect_defs)

text \<open>
  The theorem of C8 at the scenario of a limit of 100 bytes, 80 consumed and 30 requested,
  in both kinds of thread.
\<close>

theorem C8_soft_limit_escalates_witness:
  "skip_memory_check ctx_async = 0 \<and>
   check_limit env_soft_limit 30 = Some ''[MEM_LIMIT_EXCEEDED]memory limit 100'' \<and>
   fst (memory_tracker_check ctx_async env_soft_limit 30 state0) = Returned \<and>
   cancel_query_msgs (snd (memory_tracker_check ctx_async env_soft_limit 30 state0)) =
     [tracker_err_msg ''[MEM_LIMIT_EXCEEDED]memory limit 100''] \<and>
   slept_ms (snd (memory_tracker_check ctx_async env_soft_limit 30 state0)) = 0 \<and>
   memory_tracker_check ctx_async (env_soft_limit\<lparr>is_exceed_hard_mem_limit := (\<lambda>k. False)\<rparr>)
     30 state0 = memory_tracker_check ctx_async env_soft_limit 30 state0 \<and>
   fst (memory_tracker_check ctx_sync env_soft_limit 30 state0) =
     Threw MEM_ALLOC_FAILED (tracker_err_msg ''[MEM_LIMIT_EXCEEDED]memory limit 100'')"
proof -
  have h: "skip_memory_check ctx_async = 0"
    "check_limit env_soft_limit 30 = Some ''[MEM_LIMIT_EXCEEDED]memory limit 100''"
    and h': "skip_memory_check ctx_sync = 0"
    by (simp_all add: run_defs)
  from C8_soft_limit_escalates [OF h, of state0 "\<lambda>k. False"]
    C8_soft_limit_escalates [OF h' h(2), of state0 "\<lambda>k. False"] h
  show ?thesis
    by (simp add: run_defs)
qed

text \<open>
  Claim C10. When the call is not skipped, the tracker's \<^verbatim>\<open>check_limit\<close> fails and the
  context is attached to a query, the wait bit is cleared in the state the call leaves
  behind, whether it throws or cancels the query. From that state no system check sleeps,
  whatever the configuration, the context, the answers of the collaborators and the size.
\<close>

theorem C10_soft_limit_disables_wait:
  assumes "skip_memory_check ctx = 0"
    and "check_limit env sz = Some st"
    and "is_attach_query ctx"
  shows "memory_tracker_check ctx env sz s =
      (if enable_thread_catch_bad_alloc ctx
       then (Threw MEM_ALLOC_FAILED (tracker_err_msg st),
             s\<lparr>wait_gc := False,
               logs := logs s @ [PrintLogUsage (tracker_err_msg st),
                 LogInfo (query_throw_log ctx (tracker_err_msg st))]\<rparr>)
       else (Returned,
             s\<lparr>wait_gc := False,
               logs := logs s @ [PrintLogUsage (tracker_err_msg st),
                 LogInfo (query_canceled_asyn_log ctx (tracker_err_msg st))],
               cancel_query_msgs := cancel_query_msgs s @ [tracker_err_msg st]\<rparr>)) \<and>
    \<not> wait_gc (snd (memory_tracker_check ctx env sz s)) \<and>
    slept_ms (snd (sys_memory_check cfg' ctx' env' sz'
        (snd (memory_tracker_check ctx env sz s)))) =
      slept_ms (snd (memory_tracker_check ctx env sz s))"
proof -
  have eq: "memory_tracker_check ctx env sz s =
      (if enable_thread_catch_bad_alloc ctx
       then (Threw MEM_ALLOC_FAILED (tracker_err_msg st),
             s\<lparr>wait_gc := False,
               logs := logs s @ [PrintLogUsage (tracker_err_msg st),
                 LogInfo (query_throw_log ctx (tracker_err_msg st))]\<rparr>)
       else (Returned,
             s\<lparr>wait_gc := False,
               logs := logs s @ [PrintLogUsage (tracker_err_msg st),
                 LogInfo (query_canceled_asyn_log ctx (tracker_err_msg st))],
               cancel_query_msgs := cancel_query_msgs s @ [tracker_err_msg st]\<rparr>))"
    using assms by (simp add: memory_tracker_check_def Let_def effect_defs)
  then have off: "\<not> wait_gc (snd (memory_tracker_check ctx env sz s))"
    by simp
  from eq off sys_memory_check_no_wait [OF off] show ?thesis
    by blast
qed

text \<open>
  The theorem of C10: after the failed tracker check, a system check with the hard limit
  exceeded throughout does not sleep.
\<close>

theorem C10_soft_limit_disables_wait_witness:
  "skip_memory_check ctx_sync = 0 \<and> is_attach_query ctx_sync \<and>
   check_limit env_soft_limit 30 = Some ''[MEM_LIMIT_EXCEEDED]memory limit 100'' \<and>
   wait_gc state0 \<and>
   \<not> wait_gc (snd (memory_tracker_check ctx_sync env_soft_limit 30 state0)) \<and>
   slept_ms (snd (sys_memory_check cfg_default ctx_sync env_exceeded 200
       (snd (memory_tracker_check ctx_sync env_soft_limit 30 state0)))) = 0"
proof -
  have h: "skip_memory_check ctx_sync = 0"
    "check_limit env_soft_limit 30 = Some ''[MEM_LIMIT_EXCEEDED]memory limit 100''"
    "is_attach_query ctx_sync"
    by (simp_all add: run_defs)
  have z: "slept_ms (snd (memory_tracker_check ctx_sync env_soft_limit 30 state0)) = 0"
    by (simp add: memory_tracker_check_def run_defs Let_def effect_defs)
  have w: "wait_gc state0"
    by (simp add: state0_def)
  from C10_soft_limit_disables_wait [OF h, of state0 cfg_default ctx_sync env_exceeded 200]
  have "\<not> wait_gc (snd (memory_tracker_check ctx_sync env_soft_limit 30 state0))"
    "slept_ms (snd (sys_memory_check cfg_default ctx_sync env_exceeded 200
       (snd (memory_tracker_check ctx_sync env_soft_limit 30 state0)))) =
     slept_ms (snd (memory_tracker_check ctx_sync env_soft_limit 30 state0))"
    by blast+
  with h z w show ?thesis
    by simp
qed

subsection \<open>The wait for reclaimed memory (lines 109-152)\<close>

text \<open>
  The hard-limit check of an attached query that may wait and is not cancelled, with
  garbage collection enabled, is the loop followed by the test of lines 133-151.
\<close>

lemma hard_limit_check_waits:
  assumes "is_exceed_hard_mem_limit env 0" "\<not> is_query_cancelled env 0"
    and "is_attach_query ctx" "wait_gc s" "\<not> disable_memory_gc cfg"
  shows "hard_limit_check cfg ctx env sz s =
    (case wait_loop cfg ctx env sz (sys_err_msg cfg ctx env sz) 0 0
            (log_write (LogInfo (waiting_log cfg ctx (sys_err_msg cfg ctx env sz))) s) of
       (Left r, s2) \<Rightarrow> (r, s2)
     | (Done w, s2) \<Rightarrow>
         if thread_wait_gc_max_milliseconds cfg \<le> w then
           let s3 = log_write PrintLogProcessUsage (disable_wait_gc s2) in
           if \<not> enable_thread_catch_bad_alloc ctx then
             (Returned,
              cancel_query (sys_err_msg cfg ctx env sz)
                (log_write (LogInfo (canceled_asyn_log ctx w (sys_err_msg cfg ctx env sz))) s3))
           else
             (Threw MEM_ALLOC_FAILED (sys_err_msg cfg ctx env sz),
              log_write (LogInfo (throw_after_wait_log ctx w (sys_err_msg cfg ctx env sz))) s3)
         else (Returned, s2))"
  using assms by (simp add: hard_limit_check_def Let_def)

text \<open>
  A wait that runs to the ceiling \<open>c\<close> makes \<open>(c + 99) div 100\<close> polls, none when \<open>c\<close> is not positive.
\<close>

lemma polls_cover_ceiling:
  "c \<le> 100 * int (nat ((c + 99) div 100))"
  by (cases "0 < c") auto

text \<open>
  The run in which polls \<open>1\<close> to \<open>d\<close> find the limit exceeded and the query alive, poll
  \<open>d + 1\<close> is still made, and it finds the limit no longer exceeded.
\<close>

lemma sys_memory_check_freed:
  assumes "skip_memory_check ctx = 0"
    and "\<not> (0 < mem_alloc_fault_probability cfg \<and> fault env)"
    and "is_exceed_hard_mem_limit env 0" "\<not> is_query_cancelled env 0"
    and "is_attach_query ctx" "wait_gc s" "\<not> disable_memory_gc cfg"
    and "\<forall>j. 1 \<le> j \<and> j \<le> d \<longrightarrow> is_exceed_hard_mem_limit env j \<and> \<not> is_query_cancelled env j"
    and "100 * int d < thread_wait_gc_max_milliseconds cfg"
    and "\<not> is_exceed_hard_mem_limit env (Suc d)"
  shows "sys_memory_check cfg ctx env sz s =
    (Returned,
     s\<lparr>refresh_interval_memory_growth := refresh_interval_memory_growth s + sz,
       logs := logs s @ [LogInfo (waiting_log cfg ctx (sys_err_msg cfg ctx env sz))],
       slept_ms := slept_ms s + 100 * Suc d\<rparr>)"
proof -
  let ?e = "sys_err_msg cfg ctx env sz"
  let ?s1 = "log_write (LogInfo (waiting_log cfg ctx ?e)) s"
  have fi: "fault_injection cfg ctx env s = (Returned, s)"
    using assms(2) by (rule fault_injection_idle)
  have "wait_loop cfg ctx env sz ?e 0 0 ?s1 =
      (Done (0 + 100 * int d), add_interval_memory_growth sz (sleep_for (100 * Suc d) ?s1))"
    using assms(8-10) by (intro wait_loop_free) auto
  with assms(9) have "hard_limit_check cfg ctx env sz s =
      (Returned, add_interval_memory_growth sz (sleep_for (100 * Suc d) ?s1))"
    by (simp add: hard_limit_check_waits [OF assms(3-7)])
  with fi assms(1) show ?thesis
    by (simp add: sys_memory_check_def effect_defs)
qed

text \<open>
  Whatever the inputs, the time a system check sleeps is a multiple \<open>100 * m\<close> of the
  polling increment, and when it sleeps at all it stays below the ceiling plus one
  increment.
\<close>

lemma sys_memory_check_slept:
  "\<exists>m. slept_ms (snd (sys_memory_check cfg ctx env sz s)) = slept_ms s + 100 * m \<and>
       (m = 0 \<or> 100 * int m < thread_wait_gc_max_milliseconds cfg + 100)"
proof (cases "fault_injection cfg ctx env s")
  case (Pair r s1)
  then have s1: "slept_ms s1 = slept_ms s"
    using fault_injection_frame [of cfg ctx env s] by simp
  show ?thesis
  proof (cases "skip_memory_check ctx = 0 \<and> r = Returned")
    case True
    with Pair have "sys_memory_check cfg ctx env sz s = hard_limit_check cfg ctx env sz s1"
      by (simp add: sys_memory_check_def)
    with hard_limit_check_slept [of cfg ctx env sz s1] s1 show ?thesis
      by simp
  next
    case False
    with Pair s1 have "slept_ms (snd (sys_memory_check cfg ctx env sz s)) = slept_ms s + 100 * 0"
      by (cases r) (auto simp: sys_memory_check_def)
    then show ?thesis by blast
  qed
qed

text \<open>
  With a negative ceiling the loop is not entered: the check escalates at once, without a
  sleep.
\<close>

lemma negative_ceiling_run:
  "sys_memory_check cfg_negative_ceiling ctx_async env_exceeded 200 state0 =
     (Returned,
      state0\<lparr>wait_gc := False,
        cancel_query_msgs := [sys_err_msg cfg_negative_ceiling ctx_async env_exceeded 200],
        logs := [LogInfo (waiting_log cfg_negative_ceiling ctx_async
                   (sys_err_msg cfg_negative_ceiling ctx_async env_exceeded 200)),
                 PrintLogProcessUsage,
                 LogInfo (canceled_asyn_log ctx_async 0
                   (sys_err_msg cfg_negative_ceiling ctx_async env_exceeded 200))]\<rparr>)"
  by (simp add: run_defs sys_memory_check_def fault_injection_def hard_limit_check_def
      wait_loop.simps Let_def effect_defs)

text \<open>
  Claim C4. In a hard-limit violation of an attached query that may wait (not skipped, no
  injected fault, not cancelled, garbage collection enabled), let the re-checks of polls
  \<open>1\<close> to \<open>d\<close> find the limit exceeded and the query alive, let the loop still run
  after them (\<open>100 * d\<close> is below the ceiling), and let the re-check of poll \<open>d + 1\<close>
  find the limit no longer exceeded. Then the requested size is added to
  \<^verbatim>\<open>refresh_interval_memory_growth\<close> (an addition on 64 bits) and the call returns
  normally; nothing is cancelled, the wait bit stays set, and the call has slept
  \<open>100 * (d + 1)\<close> ms and logged its "waiting" line.
\<close>

theorem C4_limit_freed_during_wait:
  assumes "skip_memory_check ctx = 0"
    and "\<not> (0 < mem_alloc_fault_probability cfg \<and> fault env)"
    and "is_exceed_hard_mem_limit env 0" "\<not> is_query_cancelled env 0"
    and "is_attach_query ctx" "wait_gc s" "\<not> disable_memory_gc cfg"
    and "\<forall>j. 1 \<le> j \<and> j \<le> d \<longrightarrow> is_exceed_hard_mem_limit env j \<and> \<not> is_query_cancelled env j"
    and "100 * int d < thread_wait_gc_max_milliseconds cfg"
    and "\<not> is_exceed_hard_mem_limit env (Suc d)"
  shows "sys_memory_check cfg ctx env sz s =
    (Returned,
     s\<lparr>refresh_interval_memory_growth := refresh_interval_memory_growth s + sz,
       logs := logs s @ [LogInfo (waiting_log cfg ctx (sys_err_msg cfg ctx env sz))],
       slept_ms := slept_ms s + 100 * Suc d\<rparr>)"
  using assms by (rule sys_memory_check_freed)

text \<open>
  The theorem of C4 where the third poll finds the limit free: 300 ms slept, 200 bytes recorded.
\<close>

theorem C4_limit_freed_during_wait_witness:
  "is_exceed_hard_mem_limit env_freed 0 \<and> is_exceed_hard_mem_limit env_freed 1 \<and>
   is_exceed_hard_mem_limit env_freed 2 \<and> \<not> is_exceed_hard_mem_limit env_freed 3 \<and>
   sys_memory_check cfg_default ctx_async env_freed 200 state0 =
     (Returned,
      state0\<lparr>refresh_interval_memory_growth := 200,
        logs := [LogInfo (waiting_log cfg_default ctx_async
                   (sys_err_msg cfg_default ctx_async env_freed 200))],
        slept_ms := 300\<rparr>)"
proof -
  have h: "skip_memory_check ctx_async = 0"
    "\<not> (0 < mem_alloc_fault_probability cfg_default \<and> fault env_freed)"
    "is_exceed_hard_mem_limit env_freed 0" "\<not> is_query_cancelled env_freed 0"
    "is_attach_query ctx_async" "wait_gc state0" "\<not> disable_memory_gc cfg_default"
    "\<forall>j. 1 \<le> j \<and> j \<le> 2 \<longrightarrow>
       is_exceed_hard_mem_limit env_freed j \<and> \<not> is_query_cancelled env_freed j"
    "100 * int 2 < thread_wait_gc_max_milliseconds cfg_default"
    "\<not> is_exceed_hard_mem_limit env_freed (Suc 2)"
    by (simp_all add: run_defs)
  have p: "is_exceed_hard_mem_limit env_freed 1" "is_exceed_hard_mem_limit env_freed 2"
    "\<not> is_exceed_hard_mem_limit env_freed 3"
    by (simp_all add: run_defs)
  from C4_limit_freed_during_wait [OF h, of 200] h(3) p show ?thesis
    by (simp add: state0_def)
qed

text \<open>
  Claim C5. In a hard-limit violation of an attached query that may wait (not skipped, no
  injected fault, not cancelled, garbage collection enabled), let every poll made while
  the counter is below the ceiling find the limit exceeded and the query alive. Then the
  call sleeps through all \<open>(ceiling + 99) div 100\<close> polls, clears the wait bit, logs the
  process usage, and escalates: a thread that catches gets the exception
  \<open>MEM_ALLOC_FAILED\<close> with the descriptive message; in a thread that does not catch,
  \<^verbatim>\<open>cancel_query\<close> is called with that same message and the call returns. From the
  state left behind no later system check sleeps, whatever its configuration, context,
  collaborators' answers and size. The descriptive message is the one of lines 86-99: the
  requested size, the tracker's label, its peak and current consumption, the last
  consumer's label and the arbitrator's text on the process limit, followed by the stack
  trace when the threshold is positive and the size above it.
\<close>

theorem C5_ceiling_reached:
  assumes "skip_memory_check ctx = 0"
    and "\<not> (0 < mem_alloc_fault_probability cfg \<and> fault env)"
    and "is_exceed_hard_mem_limit env 0" "\<not> is_query_cancelled env 0"
    and "is_attach_query ctx" "wait_gc s" "\<not> disable_memory_gc cfg"
    and "\<forall>j. 1 \<le> j \<and> 100 * (int j - 1) < thread_wait_gc_max_milliseconds cfg \<longrightarrow>
           is_exceed_hard_mem_limit env j \<and> \<not> is_query_cancelled env j"
  shows "sys_memory_check cfg ctx env sz s =
      (if enable_thread_catch_bad_alloc ctx
       then (Threw MEM_ALLOC_FAILED (sys_err_msg cfg ctx env sz),
             s\<lparr>wait_gc := False,
               logs := logs s @
                 [LogInfo (waiting_log cfg ctx (sys_err_msg cfg ctx env sz)),
                  PrintLogProcessUsage,
                  LogInfo (throw_after_wait_log ctx
                    (100 * int (nat ((thread_wait_gc_max_milliseconds cfg + 99) div 100)))
                    (sys_err_msg cfg ctx env sz))],
               slept_ms := slept_ms s +
                 100 * nat ((thread_wait_gc_max_milliseconds cfg + 99) div 100)\<rparr>)
       else (Returned,
             s\<lparr>wait_gc := False,
               cancel_query_msgs := cancel_query_msgs s @ [sys_err_msg cfg ctx env sz],
               logs := logs s @
                 [LogInfo (waiting_log cfg ctx (sys_err_msg cfg ctx env sz)),
                  PrintLogProcessUsage,
                  LogInfo (canceled_asyn_log ctx
                    (100 * int (nat ((thread_wait_gc_max_milliseconds cfg + 99) div 100)))
                    (sys_err_msg cfg ctx env sz))],
               slept_ms := slept_ms s +
                 100 * nat ((thread_wait_gc_max_milliseconds cfg + 99) div 100)\<rparr>)) \<and>
    slept_ms (snd (sys_memory_check cfg' ctx' env' sz'
        (snd (sys_memory_check cfg ctx env sz s)))) =
      slept_ms (snd (sys_memory_check cfg ctx env sz s)) \<and>
    sys_err_msg cfg ctx env sz =
      ''Allocator sys memory check failed: Cannot alloc:'' @ show_nat (unat sz) @
      '', consuming tracker:<'' @ tracker_label ctx @
      ''>, peak used '' @ show_int (peak_consumption ctx) @
      '', current used '' @ show_int (consumption ctx) @
      '', exec node:<'' @ last_consumer_tracker_label ctx @
      ''>, '' @ process_limit_exceeded_errmsg_str env @ ''.'' @
      (if 0 < stacktrace_in_alloc_large_memory_bytes cfg \<and>
          stacktrace_in_alloc_large_memory_bytes cfg < uint sz
       then [CHR 0x0A] @ ''Alloc Stacktrace:'' @ [CHR 0x0A] @ get_stack_trace env
       else [])"
proof -
  let ?e = "sys_err_msg cfg ctx env sz"
  let ?s1 = "log_write (LogInfo (waiting_log cfg ctx ?e)) s"
  let ?n = "nat ((thread_wait_gc_max_milliseconds cfg + 99) div 100)"
  have fi: "fault_injection cfg ctx env s = (Returned, s)"
    using assms(2) by (rule fault_injection_idle)
  have "wait_loop cfg ctx env sz ?e 0 0 ?s1 =
      (Done (0 + 100 * int (nat ((thread_wait_gc_max_milliseconds cfg - 0 + 99) div 100))),
       sleep_for (100 * nat ((thread_wait_gc_max_milliseconds cfg - 0 + 99) div 100)) ?s1)"
    using assms(8) by (intro wait_loop_ceiling) auto
  then have loop: "wait_loop cfg ctx env sz ?e 0 0 ?s1 = (Done (100 * int ?n), sleep_for (100 * ?n) ?s1)"
    by simp
  have eq: "sys_memory_check cfg ctx env sz s =
      (if enable_thread_catch_bad_alloc ctx
       then (Threw MEM_ALLOC_FAILED ?e,
             s\<lparr>wait_gc := False,
               logs := logs s @ [LogInfo (waiting_log cfg ctx ?e), PrintLogProcessUsage,
                  LogInfo (throw_after_wait_log ctx (100 * int ?n) ?e)],
               slept_ms := slept_ms s + 100 * ?n\<rparr>)
       else (Returned,
             s\<lparr>wait_gc := False,
               cancel_query_msgs := cancel_query_msgs s @ [?e],
               logs := logs s @ [LogInfo (waiting_log cfg ctx ?e), PrintLogProcessUsage,
                  LogInfo (canceled_asyn_log ctx (100 * int ?n) ?e)],
               slept_ms := slept_ms s + 100 * ?n\<rparr>))"
  proof -
    have "thread_wait_gc_max_milliseconds cfg \<le> 100 * int ?n"
      by (rule polls_cover_ceiling)
    then have "hard_limit_check cfg ctx env sz s =
      (if \<not> enable_thread_catch_bad_alloc ctx
       then (Returned,
             cancel_query ?e (log_write (LogInfo (canceled_asyn_log ctx (100 * int ?n) ?e))
               (log_write PrintLogProcessUsage (disable_wait_gc (sleep_for (100 * ?n) ?s1)))))
       else (Threw MEM_ALLOC_FAILED ?e,
             log_write (LogInfo (throw_after_wait_log ctx (100 * int ?n) ?e))
               (log_write PrintLogProcessUsage (disable_wait_gc (sleep_for (100 * ?n) ?s1)))))"
      unfolding hard_limit_check_waits [OF assms(3-7)] loop by (simp add: Let_def)
    with fi assms(1) show ?thesis
      by (simp add: sys_memory_check_def effect_defs)
  qed
  then have off: "\<not> wait_gc (snd (sys_memory_check cfg ctx env sz s))"
    by simp
  have msg: "sys_err_msg cfg ctx env sz =
      ''Allocator sys memory check failed: Cannot alloc:'' @ show_nat (unat sz) @
      '', consuming tracker:<'' @ tracker_label ctx @
      ''>, peak used '' @ show_int (peak_consumption ctx) @
      '', current used '' @ show_int (consumption ctx) @
      '', exec node:<'' @ last_consumer_tracker_label ctx @
      ''>, '' @ process_limit_exceeded_errmsg_str env @ ''.'' @
      (if 0 < stacktrace_in_alloc_large_memory_bytes cfg \<and>
          stacktrace_in_alloc_large_memory_bytes cfg < uint sz
       then [CHR 0x0A] @ ''Alloc Stacktrace:'' @ [CHR 0x0A] @ get_stack_trace env
       else [])"
    by (simp add: sys_err_msg_def)
  from eq sys_memory_check_no_wait [OF off] msg show ?thesis
    by blast
qed

text \<open>
  The theorem of C5 at a ceiling of 1000 ms with the limit exceeded throughout, every
  message written out: ten polls, then the exception in a thread that catches, and, with
  a stack-trace threshold of 100 bytes, the cancellation in one that does not.
\<close>

theorem C5_ceiling_reached_witness:
  "is_exceed_hard_mem_limit env_exceeded 0 \<and> is_attach_query ctx_sync \<and> wait_gc state0 \<and>
   sys_memory_check cfg_default ctx_sync env_exceeded 200 state0 =
     (Threw MEM_ALLOC_FAILED
        ''Allocator sys memory check failed: Cannot alloc:200, consuming tracker:<Query#Id=q1>, peak used 950, current used 900, exec node:<scan>, process memory used 950, exceed limit 1000.'',
      \<lparr>wait_gc = False, refresh_interval_memory_growth = 0, cancel_query_msgs = [],
        logs = [LogInfo (''Query:q1 waiting for enough memory in thread id:7, maximum 1000ms, '' @
                  ''Allocator sys memory check failed: Cannot alloc:200, consuming tracker:<Query#Id=q1>, peak used 950, current used 900, exec node:<scan>, process memory used 950, exceed limit 1000.'' @ ''.''),
                PrintLogProcessUsage,
                LogInfo (''Query:q1 throw exception, after waiting for memory 1000ms, '' @
                  ''Allocator sys memory check failed: Cannot alloc:200, consuming tracker:<Query#Id=q1>, peak used 950, current used 900, exec node:<scan>, process memory used 950, exceed limit 1000.'' @ ''.'')],
        slept_ms = 1000\<rparr>) \<and>
   slept_ms (snd (sys_memory_check cfg_default ctx_sync env_exceeded 200
       (snd (sys_memory_check cfg_default ctx_sync env_exceeded 200 state0)))) = 1000 \<and>
   sys_memory_check cfg_small_trace ctx_async env_exceeded 200 state0 =
     (Returned,
      \<lparr>wait_gc = False, refresh_interval_memory_growth = 0,
        cancel_query_msgs = [''Allocator sys memory check failed: Cannot alloc:200, consuming tracker:<Query#Id=q1>, peak used 950, current used 900, exec node:<scan>, process memory used 950, exceed limit 1000.'' @
          [CHR 0x0A] @ ''Alloc Stacktrace:'' @ [CHR 0x0A] @ ''#0 alloc''],
        logs = [LogInfo (''Query:q1 waiting for enough memory in thread id:7, maximum 1000ms, '' @
                  ''Allocator sys memory check failed: Cannot alloc:200, consuming tracker:<Query#Id=q1>, peak used 950, current used 900, exec node:<scan>, process memory used 950, exceed limit 1000.'' @
                  [CHR 0x0A] @ ''Alloc Stacktrace:'' @ [CHR 0x0A] @ ''#0 alloc'' @ ''.''),
                PrintLogProcessUsage,
                LogInfo (''Query:q1 canceled asyn, after waiting for memory 1000ms, '' @
                  ''Allocator sys memory check failed: Cannot alloc:200, consuming tracker:<Query#Id=q1>, peak used 950, current used 900, exec node:<scan>, process memory used 950, exceed limit 1000.'' @
                  [CHR 0x0A] @ ''Alloc Stacktrace:'' @ [CHR 0x0A] @ ''#0 alloc'' @ ''.'')],
        slept_ms = 1000\<rparr>)"
proof -
  have h: "\<not> (0 < mem_alloc_fault_probability cfg_default \<and> fault env_exceeded)"
    "is_exceed_hard_mem_limit env_exceeded 0" "\<not> is_query_cancelled env_exceeded 0"
    and a: "wait_gc state0" "\<not> disable_memory_gc cfg_default"
    "\<forall>j. 1 \<le> j \<and> 100 * (int j - 1) < thread_wait_gc_max_milliseconds cfg_default \<longrightarrow>
       is_exceed_hard_mem_limit env_exceeded j \<and> \<not> is_query_cancelled env_exceeded j"
    and h': "\<not> (0 < mem_alloc_fault_probability cfg_small_trace \<and> fault env_exceeded)"
    and a': "\<not> disable_memory_gc cfg_small_trace"
    "\<forall>j. 1 \<le> j \<and> 100 * (int j - 1) < thread_wait_gc_max_milliseconds cfg_small_trace \<longrightarrow>
       is_exceed_hard_mem_limit env_exceeded j \<and> \<not> is_query_cancelled env_exceeded j"
    and sync: "skip_memory_check ctx_sync = 0" "is_attach_query ctx_sync"
      "enable_thread_catch_bad_alloc ctx_sync"
    and async: "skip_memory_check ctx_async = 0" "is_attach_query ctx_async"
      "\<not> enable_thread_catch_bad_alloc ctx_async"
    and c: "thread_wait_gc_max_milliseconds cfg_default = 1000"
      "thread_wait_gc_max_milliseconds cfg_small_trace = 1000"
    by (simp_all add: run_defs)
  have e: "sys_err_msg cfg_default ctx_sync env_exceeded 200 =
      ''Allocator sys memory check failed: Cannot alloc:200, consuming tracker:<Query#Id=q1>, peak used 950, current used 900, exec node:<scan>, process memory used 950, exceed limit 1000.''"
    "sys_err_msg cfg_small_trace ctx_async env_exceeded 200 =
      ''Allocator sys memory check failed: Cannot alloc:200, consuming tracker:<Query#Id=q1>, peak used 950, current used 900, exec node:<scan>, process memory used 950, exceed limit 1000.'' @
      [CHR 0x0A] @ ''Alloc Stacktrace:'' @ [CHR 0x0A] @ ''#0 alloc''"
    by (simp_all add: msg_defs run_defs)
  have l: "waiting_log cfg_default ctx_sync
      ''Allocator sys memory check failed: Cannot alloc:200, consuming tracker:<Query#Id=q1>, peak used 950, current used 900, exec node:<scan>, process memory used 950, exceed limit 1000.'' =
      ''Query:q1 waiting for enough memory in thread id:7, maximum 1000ms, '' @
      ''Allocator sys memory check failed: Cannot alloc:200, consuming tracker:<Query#Id=q1>, peak used 950, current used 900, exec node:<scan>, process memory used 950, exceed limit 1000.'' @ ''.''"
    "throw_after_wait_log ctx_sync 1000
      ''Allocator sys memory check failed: Cannot alloc:200, consuming tracker:<Query#Id=q1>, peak used 950, current used 900, exec node:<scan>, process memory used 950, exceed limit 1000.'' =
      ''Query:q1 throw exception, after waiting for memory 1000ms, '' @
      ''Allocator sys memory check failed: Cannot alloc:200, consuming tracker:<Query#Id=q1>, peak used 950, current used 900, exec node:<scan>, process memory used 950, exceed limit 1000.'' @ ''.''"
    "waiting_log cfg_small_trace ctx_async
      (''Allocator sys memory check failed: Cannot alloc:200, consuming tracker:<Query#Id=q1>, peak used 950, current used 900, exec node:<scan>, process memory used 950, exceed limit 1000.'' @
      [CHR 0x0A] @ ''Alloc Stacktrace:'' @ [CHR 0x0A] @ ''#0 alloc'') =
      ''Query:q1 waiting for enough memory in thread id:7, maximum 1000ms, '' @
      ''Allocator sys memory check failed: Cannot alloc:200, consuming tracker:<Query#Id=q1>, peak used 950, current used 900, exec node:<scan>, process memory used 950, exceed limit 1000.'' @
      [CHR 0x0A] @ ''Alloc Stacktrace:'' @ [CHR 0x0A] @ ''#0 alloc'' @ ''.''"
    "canceled_asyn_log ctx_async 1000
      (''Allocator sys memory check failed: Cannot alloc:200, consuming tracker:<Query#Id=q1>, peak used 950, current used 900, exec node:<scan>, process memory used 950, exceed limit 1000.'' @
      [CHR 0x0A] @ ''Alloc Stacktrace:'' @ [CHR 0x0A] @ ''#0 alloc'') =
      ''Query:q1 canceled asyn, after waiting for memory 1000ms, '' @
      ''Allocator sys memory check failed: Cannot alloc:200, consuming tracker:<Query#Id=q1>, peak used 950, current used 900, exec node:<scan>, process memory used 950, exceed limit 1000.'' @
      [CHR 0x0A] @ ''Alloc Stacktrace:'' @ [CHR 0x0A] @ ''#0 alloc'' @ ''.''"
    by (simp_all add: msg_defs run_defs)
  note t1 = C5_ceiling_reached [OF sync(1) h sync(2) a, of 200 cfg_default ctx_sync env_exceeded 200]
  note t2 = C5_ceiling_reached [OF async(1) h' h(2,3) async(2) a(1) a', of 200 cfg_default ctx_sync env_exceeded 200]
  from t1 have r1: "sys_memory_check cfg_default ctx_sync env_exceeded 200 state0 =
     (Threw MEM_ALLOC_FAILED
        ''Allocator sys memory check failed: Cannot alloc:200, consuming tracker:<Query#Id=q1>, peak used 950, current used 900, exec node:<scan>, process memory used 950, exceed limit 1000.'',
      \<lparr>wait_gc = False, refresh_interval_memory_growth = 0, cancel_query_msgs = [],
        logs = [LogInfo (''Query:q1 waiting for enough memory in thread id:7, maximum 1000ms, '' @
                  ''Allocator sys memory check failed: Cannot alloc:200, consuming tracker:<Query#Id=q1>, peak used 950, current used 900, exec node:<scan>, process memory used 950, exceed limit 1000.'' @ ''.''),
                PrintLogProcessUsage,
                LogInfo (''Query:q1 throw exception, after waiting for memory 1000ms, '' @
                  ''Allocator sys memory check failed: Cannot alloc:200, consuming tracker:<Query#Id=q1>, peak used 950, current used 900, exec node:<scan>, process memory used 950, exceed limit 1000.'' @ ''.'')],
        slept_ms = 1000\<rparr>)"
    by (simp add: sync c e l state0_def)
  from t1 have "slept_ms (snd (sys_memory_check cfg_default ctx_sync env_exceeded 200
       (snd (sys_memory_check cfg_default ctx_sync env_exceeded 200 state0)))) =
     slept_ms (snd (sys_memory_check cfg_default ctx_sync env_exceeded 200 state0))"
    by blast
  then have r2: "slept_ms (snd (sys_memory_check cfg_default ctx_sync env_exceeded 200
       (snd (sys_memory_check cfg_default ctx_sync env_exceeded 200 state0)))) = 1000"
    by (simp add: r1)
  from t2 have r3: "sys_memory_check cfg_small_trace ctx_async env_exceeded 200 state0 =
     (Returned,
      \<lparr>wait_gc = False, refresh_interval_memory_growth = 0,
        cancel_query_msgs = [''Allocator sys memory check failed: Cannot alloc:200, consuming tracker:<Query#Id=q1>, peak used 950, current used 900, exec node:<scan>, process memory used 950, exceed limit 1000.'' @
          [CHR 0x0A] @ ''Alloc Stacktrace:'' @ [CHR 0x0A] @ ''#0 alloc''],
        logs = [LogInfo (''Query:q1 waiting for enough memory in thread id:7, maximum 1000ms, '' @
                  ''Allocator sys memory check failed: Cannot alloc:200, consuming tracker:<Query#Id=q1>, peak used 950, current used 900, exec node:<scan>, process memory used 950, exceed limit 1000.'' @
                  [CHR 0x0A] @ ''Alloc Stacktrace:'' @ [CHR 0x0A] @ ''#0 alloc'' @ ''.''),
                PrintLogProcessUsage,
                LogInfo (''Query:q1 canceled asyn, after waiting for memory 1000ms, '' @
                  ''Allocator sys memory check failed: Cannot alloc:200, consuming tracker:<Query#Id=q1>, peak used 950, current used 900, exec node:<scan>, process memory used 950, exceed limit 1000.'' @
                  [CHR 0x0A] @ ''Alloc Stacktrace:'' @ [CHR 0x0A] @ ''#0 alloc'' @ ''.'')],
        slept_ms = 1000\<rparr>)"
    by (simp add: async c e l [simplified] state0_def)
  from r1 r2 r3 h(2) sync(2) a(1) show ?thesis
    by simp
qed

text \<open>
  Claim C6. The loop is the total function \<open>wait_loop\<close>: each iteration moves the counter
  100 closer to the ceiling, which is its termination measure. For every call of the
  system check, the time slept is a multiple \<open>100 * m\<close> of the polling increment, and
  when the call sleeps at all the time is below the ceiling plus one increment; with a
  ceiling that is not positive it does not sleep, so the bound of the ceiling plus one
  increment holds for every ceiling from 0 on. And when, in a hard-limit violation of
  an attached query that may wait (not skipped, no injected fault, not cancelled, garbage
  collection enabled), the limit is found free at poll \<open>d + 1\<close> with \<open>100 * d\<close> below the
  ceiling, after polls that found it exceeded and the query alive, the call returns
  normally without cancelling anything, having slept \<open>100 * (d + 1)\<close> ms.
\<close>

theorem C6_wait_is_bounded:
  "(\<exists>m. slept_ms (snd (sys_memory_check cfg ctx env sz s)) = slept_ms s + 100 * m \<and>
       (m = 0 \<or> 100 * int m < thread_wait_gc_max_milliseconds cfg + 100) \<and>
       (0 \<le> thread_wait_gc_max_milliseconds cfg \<longrightarrow>
          100 * int m \<le> thread_wait_gc_max_milliseconds cfg + 100)) \<and>
   (skip_memory_check ctx = 0 \<and> \<not> (0 < mem_alloc_fault_probability cfg \<and> fault env) \<and>
    is_exceed_hard_mem_limit env 0 \<and> \<not> is_query_cancelled env 0 \<and>
    is_attach_query ctx \<and> wait_gc s \<and> \<not> disable_memory_gc cfg \<and>
    (\<forall>j. 1 \<le> j \<and> j \<le> d \<longrightarrow> is_exceed_hard_mem_limit env j \<and> \<not> is_query_cancelled env j) \<and>
    100 * int d < thread_wait_gc_max_milliseconds cfg \<and>
    \<not> is_exceed_hard_mem_limit env (Suc d)
    \<longrightarrow> fst (sys_memory_check cfg ctx env sz s) = Returned \<and>
        cancel_query_msgs (snd (sys_memory_check cfg ctx env sz s)) = cancel_query_msgs s \<and>
        slept_ms (snd (sys_memory_check cfg ctx env sz s)) = slept_ms s + 100 * Suc d)"
proof (intro conjI impI)
  from sys_memory_check_slept [of cfg ctx env sz s] obtain m where
    "slept_ms (snd (sys_memory_check cfg ctx env sz s)) = slept_ms s + 100 * m"
    "m = 0 \<or> 100 * int m < thread_wait_gc_max_milliseconds cfg + 100"
    by blast
  then show "\<exists>m. slept_ms (snd (sys_memory_check cfg ctx env sz s)) = slept_ms s + 100 * m \<and>
       (m = 0 \<or> 100 * int m < thread_wait_gc_max_milliseconds cfg + 100) \<and>
       (0 \<le> thread_wait_gc_max_milliseconds cfg \<longrightarrow>
          100 * int m \<le> thread_wait_gc_max_milliseconds cfg + 100)"
    by (intro exI[of _ m]) auto
next
  assume a: "skip_memory_check ctx = 0 \<and> \<not> (0 < mem_alloc_fault_probability cfg \<and> fault env) \<and>
    is_exceed_hard_mem_limit env 0 \<and> \<not> is_query_cancelled env 0 \<and>
    is_attach_query ctx \<and> wait_gc s \<and> \<not> disable_memory_gc cfg \<and>
    (\<forall>j. 1 \<le> j \<and> j \<le> d \<longrightarrow> is_exceed_hard_mem_limit env j \<and> \<not> is_query_cancelled env j) \<and>
    100 * int d < thread_wait_gc_max_milliseconds cfg \<and>
    \<not> is_exceed_hard_mem_limit env (Suc d)"
  then have eq: "sys_memory_check cfg ctx env sz s =
    (Returned,
     s\<lparr>refresh_interval_memory_growth := refresh_interval_memory_growth s + sz,
       logs := logs s @ [LogInfo (waiting_log cfg ctx (sys_err_msg cfg ctx env sz))],
       slept_ms := slept_ms s + 100 * Suc d\<rparr>)"
    by (intro sys_memory_check_freed) blast+
  show "fst (sys_memory_check cfg ctx env sz s) = Returned"
    "cancel_query_msgs (snd (sys_memory_check cfg ctx env sz s)) = cancel_query_msgs s"
    "slept_ms (snd (sys_memory_check cfg ctx env sz s)) = slept_ms s + 100 * Suc d"
    by (simp_all add: eq)
qed

text \<open>
  The theorem of C6 at a ceiling of 1000 ms where the third poll finds the limit free.
\<close>

theorem C6_wait_is_bounded_witness:
  "is_exceed_hard_mem_limit env_freed 0 \<and> is_exceed_hard_mem_limit env_freed 2 \<and>
   \<not> is_exceed_hard_mem_limit env_freed 3 \<and>
   thread_wait_gc_max_milliseconds cfg_default = 1000 \<and>
   fst (sys_memory_check cfg_default ctx_sync env_freed 200 state0) = Returned \<and>
   cancel_query_msgs (snd (sys_memory_check cfg_default ctx_sync env_freed 200 state0)) = [] \<and>
   slept_ms (snd (sys_memory_check cfg_default ctx_sync env_freed 200 state0)) = 300"
proof -
  have h: "skip_memory_check ctx_sync = 0 \<and>
    \<not> (0 < mem_alloc_fault_probability cfg_default \<and> fault env_freed) \<and>
    is_exceed_hard_mem_limit env_freed 0 \<and> \<not> is_query_cancelled env_freed 0 \<and>
    is_attach_query ctx_sync \<and> wait_gc state0 \<and> \<not> disable_memory_gc cfg_default \<and>
    (\<forall>j. 1 \<le> j \<and> j \<le> 2 \<longrightarrow>
       is_exceed_hard_mem_limit env_freed j \<and> \<not> is_query_cancelled env_freed j) \<and>
    100 * int 2 < thread_wait_gc_max_milliseconds cfg_default \<and>
    \<not> is_exceed_hard_mem_limit env_freed (Suc 2)"
    by (simp add: run_defs)
  have p: "is_exceed_hard_mem_limit env_freed 0" "is_exceed_hard_mem_limit env_freed 2"
    "\<not> is_exceed_hard_mem_limit env_freed 3"
    "thread_wait_gc_max_milliseconds cfg_default = 1000"
    "slept_ms state0 = 0" "cancel_query_msgs state0 = []"
    by (simp_all add: run_defs)
  from C6_wait_is_bounded [of cfg_default ctx_sync env_freed 200 state0 2] h
  have "fst (sys_memory_check cfg_default ctx_sync env_freed 200 state0) = Returned \<and>
    cancel_query_msgs (snd (sys_memory_check cfg_default ctx_sync env_freed 200 state0)) =
      cancel_query_msgs state0 \<and>
    slept_ms (snd (sys_memory_check cfg_default ctx_sync env_freed 200 state0)) =
      slept_ms state0 + 100 * Suc 2"
    by blast
  with p show ?thesis
    by simp
qed

text \<open>
  The answers of \<^verbatim>\<open>is_query_cancelled()\<close> matter only at the looks that find the hard
  limit exceeded: answers \<open>c\<close> that agree with the environment's at those looks give the
  same loop, the same hard-limit check and the same system check.
\<close>

lemma wait_loop_cancel_independent:
  assumes "\<forall>j. is_exceed_hard_mem_limit env j \<longrightarrow> c j = is_query_cancelled env j"
  shows "wait_loop cfg ctx (env\<lparr>is_query_cancelled := c\<rparr>) sz e k w s =
    wait_loop cfg ctx env sz e k w s"
  using assms
proof (induction cfg ctx env sz e k w s rule: wait_loop.induct)
  case (1 cfg ctx env sz e k w s)
  let ?env' = "env\<lparr>is_query_cancelled := c\<rparr>"
  have same: "is_exceed_hard_mem_limit env (Suc k) \<Longrightarrow> c (Suc k) = is_query_cancelled env (Suc k)"
    using "1.prems" by blast
  show ?case
  proof (cases "w < thread_wait_gc_max_milliseconds cfg \<and>
      is_exceed_hard_mem_limit env (Suc k) \<and> \<not> is_query_cancelled env (Suc k)")
    case True
    then have "wait_loop cfg ctx ?env' sz e (Suc k) (w + 100) (sleep_for 100 s) =
        wait_loop cfg ctx env sz e (Suc k) (w + 100) (sleep_for 100 s)"
      using "1.IH" [OF _ refl _ _ "1.prems"] by simp
    with True same show ?thesis
      by (simp add: wait_loop.simps [of cfg ctx ?env' sz e k w s]
          wait_loop.simps [of cfg ctx env sz e k w s] Let_def)
  next
    case False
    with same show ?thesis
      by (auto simp: wait_loop.simps [of cfg ctx ?env' sz e k w s]
          wait_loop.simps [of cfg ctx env sz e k w s] Let_def)
  qed
qed

lemma hard_limit_check_cancel_independent:
  assumes "\<forall>j. is_exceed_hard_mem_limit env j \<longrightarrow> c j = is_query_cancelled env j"
  shows "hard_limit_check cfg ctx (env\<lparr>is_query_cancelled := c\<rparr>) sz s =
    hard_limit_check cfg ctx env sz s"
proof (cases "is_exceed_hard_mem_limit env 0")
  case False
  then show ?thesis by (simp add: hard_limit_check_def)
next
  case True
  with assms have c0: "c 0 = is_query_cancelled env 0" by blast
  have msg: "sys_err_msg cfg ctx (env\<lparr>is_query_cancelled := c\<rparr>) sz = sys_err_msg cfg ctx env sz"
    by (simp add: sys_err_msg_def)
  show ?thesis
    by (simp add: hard_limit_check_def Let_def msg c0 wait_loop_cancel_independent [OF assms])
qed

lemma sys_memory_check_cancel_independent:
  assumes "\<forall>j. is_exceed_hard_mem_limit env j \<longrightarrow> c j = is_query_cancelled env j"
  shows "sys_memory_check cfg ctx (env\<lparr>is_query_cancelled := c\<rparr>) sz s =
    sys_memory_check cfg ctx env sz s"
proof -
  have "fault_injection cfg ctx (env\<lparr>is_query_cancelled := c\<rparr>) s = fault_injection cfg ctx env s"
    by (simp add: fault_injection_def)
  then show ?thesis
    by (simp add: sys_memory_check_def hard_limit_check_cancel_independent [OF assms]
        split: prod.split outcome.split)
qed

text \<open>
  With the hard limit not exceeded at the first test, a call that is not skipped and has
  no injected fault returns with the state untouched.
\<close>

lemma sys_memory_check_not_exceeded:
  assumes "skip_memory_check ctx = 0"
    and "\<not> (0 < mem_alloc_fault_probability cfg \<and> fault env)"
    and "\<not> is_exceed_hard_mem_limit env 0"
  shows "sys_memory_check cfg ctx env sz s = (Returned, s)"
  using assms fault_injection_idle [OF assms(2), of ctx s]
  by (simp add: sys_memory_check_def hard_limit_check_def)

text \<open>
  The run that ends at look \<open>k\<close>, the first to find the query cancelled, the limit being
  exceeded at every look up to it.
\<close>

lemma sys_memory_check_cancel_seen:
  assumes "skip_memory_check ctx = 0"
    and "\<not> (0 < mem_alloc_fault_probability cfg \<and> fault env)"
    and "\<forall>j\<le>k. is_exceed_hard_mem_limit env j"
    and "\<forall>j<k. \<not> is_query_cancelled env j"
    and "is_query_cancelled env k"
    and "0 < k \<longrightarrow> is_attach_query ctx \<and> wait_gc s \<and> \<not> disable_memory_gc cfg \<and>
           100 * (int k - 1) < thread_wait_gc_max_milliseconds cfg"
  shows "sys_memory_check cfg ctx env sz s =
    (if enable_thread_catch_bad_alloc ctx
     then Threw MEM_ALLOC_FAILED (sys_err_msg cfg ctx env sz) else Returned,
     if k = 0 then s
     else s\<lparr>logs := logs s @ [LogInfo (waiting_log cfg ctx (sys_err_msg cfg ctx env sz))],
            slept_ms := slept_ms s + 100 * k\<rparr>)"
proof -
  let ?e = "sys_err_msg cfg ctx env sz"
  let ?s1 = "log_write (LogInfo (waiting_log cfg ctx ?e)) s"
  have fi: "fault_injection cfg ctx env s = (Returned, s)"
    using assms(2) by (rule fault_injection_idle)
  show ?thesis
  proof (cases k)
    case 0
    with assms(1,3,5) fi show ?thesis
      by (simp add: sys_memory_check_def hard_limit_check_def Let_def)
  next
    case (Suc d)
    with assms(3,4,6) have entry: "is_exceed_hard_mem_limit env 0" "\<not> is_query_cancelled env 0"
      "is_attach_query ctx" "wait_gc s" "\<not> disable_memory_gc cfg"
      by auto
    have "wait_loop cfg ctx env sz ?e 0 0 ?s1 =
      (Left (if enable_thread_catch_bad_alloc ctx then Threw MEM_ALLOC_FAILED ?e else Returned),
       sleep_for (100 * Suc d) ?s1)"
      using assms(3-6) Suc by (intro wait_loop_cancelled) auto
    then have "hard_limit_check cfg ctx env sz s =
      (if enable_thread_catch_bad_alloc ctx then Threw MEM_ALLOC_FAILED ?e else Returned,
       sleep_for (100 * Suc d) ?s1)"
      unfolding hard_limit_check_waits [OF entry] by simp
    with fi assms(1) Suc show ?thesis
      by (simp add: sys_memory_check_def effect_defs)
  qed
qed

text \<open>
  Claim C7, as the code has it. The cancellation of a query is looked at only under an
  exceeded hard limit: at the first test (\<open>k = 0\<close>) and at each poll of the loop that
  still finds the limit exceeded (\<open>k > 0\<close>, in an attached query that may wait, with
  garbage collection enabled and the loop not yet at its ceiling).
  \<^item> Let \<open>k\<close> be the first look that finds the query cancelled, the limit being exceeded
    at every look up to it (not skipped, no injected fault). Then the call ends there,
    after \<open>100 * k\<close> ms of sleep, without calling \<^verbatim>\<open>cancel_query\<close> and without
    touching the wait bit or the growth counter: with a normal return in a thread that
    does not catch, with the exception \<open>MEM_ALLOC_FAILED\<close> in a thread that catches.
  \<^item> For every call, replacing the answers on the cancellation by any answers \<open>c\<close> that
    agree with them wherever the limit is found exceeded leaves the result as it is: at
    a look that finds the limit free the cancellation is not consulted.
  \<^item> When the limit is not exceeded at the first test (not skipped, no injected fault),
    the call returns with the state untouched whatever the answers \<open>c\<close> on the
    cancellation, as it does for a query that is alive.
  \<^item> The tracker check never consults the cancellation.
\<close>

theorem C7_cancellation_seen_only_over_hard_limit:
  "(skip_memory_check ctx = 0 \<and> \<not> (0 < mem_alloc_fault_probability cfg \<and> fault env) \<and>
    (\<forall>j\<le>k. is_exceed_hard_mem_limit env j) \<and> (\<forall>j<k. \<not> is_query_cancelled env j) \<and>
    is_query_cancelled env k \<and>
    (0 < k \<longrightarrow> is_attach_query ctx \<and> wait_gc s \<and> \<not> disable_memory_gc cfg \<and>
       100 * (int k - 1) < thread_wait_gc_max_milliseconds cfg)
    \<longrightarrow> sys_memory_check cfg ctx env sz s =
        (if enable_thread_catch_bad_alloc ctx
         then Threw MEM_ALLOC_FAILED (sys_err_msg cfg ctx env sz) else Returned,
         if k = 0 then s
         else s\<lparr>logs := logs s @ [LogInfo (waiting_log cfg ctx (sys_err_msg cfg ctx env sz))],
                slept_ms := slept_ms s + 100 * k\<rparr>)) \<and>
   ((\<forall>j. is_exceed_hard_mem_limit env j \<longrightarrow> c j = is_query_cancelled env j)
    \<longrightarrow> sys_memory_check cfg ctx (env\<lparr>is_query_cancelled := c\<rparr>) sz s =
        sys_memory_check cfg ctx env sz s) \<and>
   (skip_memory_check ctx = 0 \<and> \<not> (0 < mem_alloc_fault_probability cfg \<and> fault env) \<and>
    \<not> is_exceed_hard_mem_limit env 0
    \<longrightarrow> sys_memory_check cfg ctx (env\<lparr>is_query_cancelled := c\<rparr>) sz s = (Returned, s)) \<and>
   memory_tracker_check ctx (env\<lparr>is_query_cancelled := c\<rparr>) sz s =
     memory_tracker_check ctx env sz s"
proof (intro conjI impI)
  assume "skip_memory_check ctx = 0 \<and> \<not> (0 < mem_alloc_fault_probability cfg \<and> fault env) \<and>
    (\<forall>j\<le>k. is_exceed_hard_mem_limit env j) \<and> (\<forall>j<k. \<not> is_query_cancelled env j) \<and>
    is_query_cancelled env k \<and>
    (0 < k \<longrightarrow> is_attach_query ctx \<and> wait_gc s \<and> \<not> disable_memory_gc cfg \<and>
       100 * (int k - 1) < thread_wait_gc_max_milliseconds cfg)"
  then show "sys_memory_check cfg ctx env sz s =
        (if enable_thread_catch_bad_alloc ctx
         then Threw MEM_ALLOC_FAILED (sys_err_msg cfg ctx env sz) else Returned,
         if k = 0 then s
         else s\<lparr>logs := logs s @ [LogInfo (waiting_log cfg ctx (sys_err_msg cfg ctx env sz))],
                slept_ms := slept_ms s + 100 * k\<rparr>)"
    by (intro sys_memory_check_cancel_seen) blast+
next
  assume "\<forall>j. is_exceed_hard_mem_limit env j \<longrightarrow> c j = is_query_cancelled env j"
  then show "sys_memory_check cfg ctx (env\<lparr>is_query_cancelled := c\<rparr>) sz s =
        sys_memory_check cfg ctx env sz s"
    by (rule sys_memory_check_cancel_independent)
next
  assume "skip_memory_check ctx = 0 \<and> \<not> (0 < mem_alloc_fault_probability cfg \<and> fault env) \<and>
    \<not> is_exceed_hard_mem_limit env 0"
  then show "sys_memory_check cfg ctx (env\<lparr>is_query_cancelled := c\<rparr>) sz s = (Returned, s)"
    by (intro sys_memory_check_not_exceeded) simp_all
next
  show "memory_tracker_check ctx (env\<lparr>is_query_cancelled := c\<rparr>) sz s =
     memory_tracker_check ctx env sz s"
    by (simp add: memory_tracker_check_def)
qed

text \<open>
  The theorem of C7 for a query cancelled during the wait (the second poll sees it, in
  both kinds of thread) and for a cancelled query under a free hard limit.
\<close>

theorem C7_cancellation_seen_only_over_hard_limit_witness:
  "is_exceed_hard_mem_limit env_cancelled_later 2 \<and>
   \<not> is_query_cancelled env_cancelled_later 1 \<and> is_query_cancelled env_cancelled_later 2 \<and>
   sys_memory_check cfg_default ctx_async env_cancelled_later 200 state0 =
     (Returned,
      state0\<lparr>logs := [LogInfo (waiting_log cfg_default ctx_async
                  (sys_err_msg cfg_default ctx_async env_cancelled_later 200))],
             slept_ms := 200\<rparr>) \<and>
   sys_memory_check cfg_default ctx_sync env_cancelled_later 200 state0 =
     (Threw MEM_ALLOC_FAILED (sys_err_msg cfg_default ctx_sync env_cancelled_later 200),
      state0\<lparr>logs := [LogInfo (waiting_log cfg_default ctx_sync
                  (sys_err_msg cfg_default ctx_sync env_cancelled_later 200))],
             slept_ms := 200\<rparr>) \<and>
   is_query_cancelled (env_not_exceeded\<lparr>is_query_cancelled := (\<lambda>k. True)\<rparr>) 0 \<and>
   sys_memory_check cfg_default ctx_sync
     (env_not_exceeded\<lparr>is_query_cancelled := (\<lambda>k. True)\<rparr>) 200 state0 = (Returned, state0) \<and>
   sys_memory_check cfg_default ctx_sync
     (env_not_exceeded\<lparr>is_query_cancelled := (\<lambda>k. True)\<rparr>) 200 state0 =
     sys_memory_check cfg_default ctx_sync env_not_exceeded 200 state0"
proof -
  have h: "skip_memory_check ctx_async = 0 \<and>
    \<not> (0 < mem_alloc_fault_probability cfg_default \<and> fault env_cancelled_later) \<and>
    (\<forall>j\<le>2. is_exceed_hard_mem_limit env_cancelled_later j) \<and>
    (\<forall>j<2. \<not> is_query_cancelled env_cancelled_later j) \<and>
    is_query_cancelled env_cancelled_later 2 \<and>
    (0 < (2::nat) \<longrightarrow> is_attach_query ctx_async \<and> wait_gc state0 \<and>
       \<not> disable_memory_gc cfg_default \<and>
       100 * (int 2 - 1) < thread_wait_gc_max_milliseconds cfg_default)"
    and h': "skip_memory_check ctx_sync = 0 \<and>
    \<not> (0 < mem_alloc_fault_probability cfg_default \<and> fault env_cancelled_later) \<and>
    (\<forall>j\<le>2. is_exceed_hard_mem_limit env_cancelled_later j) \<and>
    (\<forall>j<2. \<not> is_query_cancelled env_cancelled_later j) \<and>
    is_query_cancelled env_cancelled_later 2 \<and>
    (0 < (2::nat) \<longrightarrow> is_attach_query ctx_sync \<and> wait_gc state0 \<and>
       \<not> disable_memory_gc cfg_default \<and>
       100 * (int 2 - 1) < thread_wait_gc_max_milliseconds cfg_default)"
    and g: "\<forall>j. is_exceed_hard_mem_limit env_not_exceeded j \<longrightarrow>
       (\<lambda>k. True) j = is_query_cancelled env_not_exceeded j"
    and f: "skip_memory_check ctx_sync = 0 \<and>
    \<not> (0 < mem_alloc_fault_probability cfg_default \<and> fault env_not_exceeded) \<and>
    \<not> is_exceed_hard_mem_limit env_not_exceeded 0"
    by (simp_all add: run_defs)
  have p: "is_exceed_hard_mem_limit env_cancelled_later 2"
    "\<not> is_query_cancelled env_cancelled_later 1" "is_query_cancelled env_cancelled_later 2"
    "\<not> enable_thread_catch_bad_alloc ctx_async" "enable_thread_catch_bad_alloc ctx_sync"
    "slept_ms state0 = 0" "logs state0 = []"
    "is_query_cancelled (env_not_exceeded\<lparr>is_query_cancelled := (\<lambda>k. True)\<rparr>) 0"
    by (simp_all add: run_defs)
  note t1 = C7_cancellation_seen_only_over_hard_limit
    [of ctx_async cfg_default env_cancelled_later 2 state0 200 "\<lambda>k. True"]
  note t2 = C7_cancellation_seen_only_over_hard_limit
    [of ctx_sync cfg_default env_cancelled_later 2 state0 200 "\<lambda>k. True"]
  note t3 = C7_cancellation_seen_only_over_hard_limit
    [of ctx_sync cfg_default env_not_exceeded 0 state0 200 "\<lambda>k. True"]
  from t1 h have r1: "sys_memory_check cfg_default ctx_async env_cancelled_later 200 state0 =
     (Returned,
      state0\<lparr>logs := [LogInfo (waiting_log cfg_default ctx_async
                  (sys_err_msg cfg_default ctx_async env_cancelled_later 200))],
             slept_ms := 200\<rparr>)"
    by (simp add: p)
  from t2 h' have r2: "sys_memory_check cfg_default ctx_sync env_cancelled_later 200 state0 =
     (Threw MEM_ALLOC_FAILED (sys_err_msg cfg_default ctx_sync env_cancelled_later 200),
      state0\<lparr>logs := [LogInfo (waiting_log cfg_default ctx_sync
                  (sys_err_msg cfg_default ctx_sync env_cancelled_later 200))],
             slept_ms := 200\<rparr>)"
    by (simp add: p)
  from t3 g have r3: "sys_memory_check cfg_default ctx_sync
     (env_not_exceeded\<lparr>is_query_cancelled := (\<lambda>k. True)\<rparr>) 200 state0 =
     sys_memory_check cfg_default ctx_sync env_not_exceeded 200 state0"
    by blast
  from t3 f have r4: "sys_memory_check cfg_default ctx_sync
     (env_not_exceeded\<lparr>is_query_cancelled := (\<lambda>k. True)\<rparr>) 200 state0 = (Returned, state0)"
    by blast
  from r1 r2 r3 r4 p show ?thesis
    by simp
qed

text \<open>
  Against C7 as stated: with the hard limit not exceeded, the check of a cancelled query
  does not look at the cancellation. It leaves through the end of the function with the
  state untouched, exactly as the check of a query that is alive does, and so does the
  whole \<^verbatim>\<open>memory_check\<close>.
\<close>

theorem C7_counterexample:
  "is_query_cancelled env_cancelled_not_exceeded 0 \<and>
   sys_memory_check cfg_default ctx_async env_cancelled_not_exceeded 200 state0 =
     (Returned, state0) \<and>
   sys_memory_check cfg_default ctx_async env_not_exceeded 200 state0 = (Returned, state0) \<and>
   memory_check cfg_default ctx_async env_cancelled_not_exceeded 200 state0 =
     (Returned, state0) \<and>
   cancel_query_msgs state0 = []"
  by (simp add: run_defs memory_check_def memory_tracker_check_def sys_memory_check_def
      fault_injection_def hard_limit_check_def Let_def)

end
